theory Spec2Isabelle
  imports Complex_Main "HOL-Library.Word" "HOL-Library.Log_Nat"
begin

section \<open>JavaScript strings, numbers and values\<close>

text \<open>
  A JavaScript string is a sequence of UTF-16 code units. Source literals are written
  with \<open>str\<close>, which maps each (ASCII) character of an Isabelle string to its code unit.
\<close>

type_synonym code_unit = "16 word"
type_synonym jstring = "code_unit list"

definition str :: "string \<Rightarrow> jstring" where
  "str s = map (\<lambda>c. of_nat (of_char c)) s"

text \<open>
  A Number is an IEEE-754 double. A finite double is modelled by its exact rational
  value; the two zeros are identified, since no operation of the program tells them
  apart (both are falsy, both print as \<open>0\<close>, both compare equal).
\<close>

datatype jsnum = NaN | PInf | NInf | Fin rat

text \<open>
  The values that \<open>JSON.parse\<close> builds, and \<open>undefined\<close> (the value of a missing
  property). An object is the list of its own properties in the order in which
  JavaScript enumerates them; \<open>JSON.parse\<close> never yields two properties with one key.
\<close>

datatype js =
    JUndefined
  | JNull
  | JBool bool
  | JNum jsnum
  | JStr jstring
  | JArr "js list"
  | JObj "(jstring \<times> js) list"

datatype exn =
    TypeError
  | SyntaxError
  | NetworkError jstring
  | Error jstring

subsection \<open>Character classes\<close>

text \<open>The regular expression class \<open>\s\<close>, which is also StrWhiteSpaceChar: WhiteSpace and
  LineTerminator of ECMAScript.\<close>

definition is_space :: "code_unit \<Rightarrow> bool" where
  "is_space c \<longleftrightarrow>
     c = 0x09 \<or> c = 0x0A \<or> c = 0x0B \<or> c = 0x0C \<or> c = 0x0D \<or> c = 0x20 \<or> c = 0xA0 \<or>
     c = 0x1680 \<or> (0x2000 \<le> c \<and> c \<le> 0x200A) \<or> c = 0x2028 \<or> c = 0x2029 \<or>
     c = 0x202F \<or> c = 0x205F \<or> c = 0x3000 \<or> c = 0xFEFF"

text \<open>JSON white space: tab, line feed, carriage return and space only.\<close>

definition is_json_ws :: "code_unit \<Rightarrow> bool" where
  "is_json_ws c \<longleftrightarrow> c = 0x09 \<or> c = 0x0A \<or> c = 0x0D \<or> c = 0x20"

definition is_digit :: "code_unit \<Rightarrow> bool" where
  "is_digit c \<longleftrightarrow> 0x30 \<le> c \<and> c \<le> 0x39"

definition digit_val :: "code_unit \<Rightarrow> nat" where
  "digit_val c = unat c - 48"

definition hex_val :: "code_unit \<Rightarrow> nat option" where
  "hex_val c =
     (if 0x30 \<le> c \<and> c \<le> 0x39 then Some (unat c - 48)
      else if 0x41 \<le> c \<and> c \<le> 0x46 then Some (unat c - 55)
      else if 0x61 \<le> c \<and> c \<le> 0x66 then Some (unat c - 87)
      else None)"

text \<open>The value of a digit sequence read in a base, most significant digit first.\<close>

fun digits_val :: "nat \<Rightarrow> nat \<Rightarrow> nat list \<Rightarrow> nat" where
  "digits_val b acc [] = acc"
| "digits_val b acc (d # ds) = digits_val b (acc * b + d) ds"

definition dec_val :: "jstring \<Rightarrow> nat" where
  "dec_val ds = digits_val 10 0 (map digit_val ds)"

subsection \<open>Rounding a real value to a double\<close>

definition pow2 :: "int \<Rightarrow> rat" where
  "pow2 e = (if 0 \<le> e then 2 ^ nat e else 1 / 2 ^ nat (- e))"

definition pow10 :: "int \<Rightarrow> rat" where
  "pow10 e = (if 0 \<le> e then 10 ^ nat e else 1 / 10 ^ nat (- e))"

text \<open>For \<open>0 < r\<close>: the exponent \<open>e\<close> with \<open>2^e \<le> r < 2^(e+1)\<close>.\<close>

definition floor_log2 :: "rat \<Rightarrow> int" where
  "floor_log2 r =
     (let (p, q) = quotient_of r; d = bitlen p - bitlen q
      in if pow2 d \<le> r then d else d - 1)"

definition round_half_even :: "rat \<Rightarrow> int" where
  "round_half_even r =
     (let f = \<lfloor>r\<rfloor>; d = r - of_int f
      in if d < 1 / 2 then f else if 1 / 2 < d then f + 1 else if even f then f else f + 1)"

text \<open>
  Round to nearest, ties to even, with 53 bits of precision, gradual underflow below
  \<open>2^-1022\<close> and overflow to an infinity from \<open>2^1024\<close> on.
\<close>

definition to_double :: "rat \<Rightarrow> jsnum" where
  "to_double r =
     (if r = 0 then Fin 0
      else
        let a = \<bar>r\<bar>;
            e = max (floor_log2 a) (- 1022);
            q = pow2 (e - 52);
            v = of_int (round_half_even (a / q)) * q
        in if pow2 1024 \<le> v then (if r < 0 then NInf else PInf)
           else Fin (if r < 0 then - v else v))"

subsection \<open>Number::toString\<close>

text \<open>The decimal digits of a natural number, most significant first.\<close>

fun nat_digits :: "nat \<Rightarrow> nat list" where
  "nat_digits n = (if n < 10 then [n] else nat_digits (n div 10) @ [n mod 10])"

declare nat_digits.simps [simp del]

definition digit_char :: "nat \<Rightarrow> code_unit" where
  "digit_char d = of_nat (48 + d)"

definition dec_str :: "nat \<Rightarrow> jstring" where
  "dec_str n = map digit_char (nat_digits n)"

text \<open>For \<open>0 < x\<close>: the \<open>n\<close> with \<open>10^(n-1) \<le> x < 10^n\<close>.\<close>

definition decimal_exponent :: "rat \<Rightarrow> int" where
  "decimal_exponent x =
     (let (p, q) = quotient_of x;
          d = int (length (nat_digits (nat p))) - int (length (nat_digits (nat q)))
      in if pow10 d \<le> x then d + 1 else d)"

text \<open>
  Number::toString takes integers \<open>n\<close>, \<open>k\<close>, \<open>s\<close> with \<open>k \<ge> 1\<close>,
  \<open>10^(k-1) \<le> s < 10^k\<close>, such that \<open>s * 10^(n-k)\<close> rounds to \<open>x\<close>, with \<open>k\<close> as small
  as possible and, among these, \<open>s * 10^(n-k)\<close> closest to \<open>x\<close> (the even \<open>s\<close> on a tie).
  For a given \<open>k\<close> the only candidates are the two neighbours of \<open>x\<close> on the grid of
  spacing \<open>10^(n-k)\<close>, where \<open>n\<close> is the decimal exponent of \<open>x\<close>; the upper neighbour
  may be the next power of ten.
\<close>

definition digits_ok :: "rat \<Rightarrow> nat \<Rightarrow> int \<times> int \<Rightarrow> bool" where
  "digits_ok x k sn =
     (case sn of
        (s, n) \<Rightarrow> 10 ^ (k - 1) \<le> s \<and> s < 10 ^ k \<and>
                  to_double (of_int s * pow10 (n - int k)) = Fin x)"

definition digits_candidate :: "rat \<Rightarrow> int \<Rightarrow> nat \<Rightarrow> (int \<times> int) option" where
  "digits_candidate x n k =
     (let g = pow10 (n - int k);
          lo = \<lfloor>x / g\<rfloor>;
          below = (lo, n);
          above = (if lo + 1 = 10 ^ k then (10 ^ (k - 1), n + 1) else (lo + 1, n));
          d_lo = x - of_int lo * g;
          d_hi = of_int (lo + 1) * g - x
      in if digits_ok x k below \<and> digits_ok x k above then
           (if d_lo < d_hi then Some below else if d_hi < d_lo then Some above
            else if even lo then Some below else Some above)
         else if digits_ok x k below then Some below
         else if digits_ok x k above then Some above
         else None)"

text \<open>
  The exact decimal expansion of a double \<open>x > 0\<close>, as digits and decimal exponent: with
  \<open>e\<close> the binary exponent of \<open>x\<close>, \<open>x * 2^j\<close> is an integer for \<open>j = 52 - e\<close>, and so is
  \<open>x * 10^j\<close>. Its length bounds \<open>k\<close>.
\<close>

definition exact_decimal :: "rat \<Rightarrow> nat list \<times> int" where
  "exact_decimal x =
     (let j = nat (52 - max (floor_log2 x) (- 1022));
          ds = nat_digits (nat \<lfloor>x * 10 ^ j\<rfloor>)
      in (ds, int (length ds) - int j))"

fun shortest_digits :: "rat \<Rightarrow> int \<Rightarrow> nat list \<Rightarrow> (int \<times> int) option" where
  "shortest_digits x n [] = None"
| "shortest_digits x n (k # ks) =
     (case digits_candidate x n k of
        Some sn \<Rightarrow> Some sn
      | None \<Rightarrow> shortest_digits x n ks)"

text \<open>Steps 6 to 10 of Number::toString, from the digits of \<open>s\<close> and \<open>n\<close>.\<close>

definition format_number :: "nat list \<Rightarrow> int \<Rightarrow> jstring" where
  "format_number ds n =
     (let k = int (length ds); digs = map digit_char ds
      in if k \<le> n \<and> n \<le> 21 then digs @ replicate (nat (n - k)) 0x30
         else if 0 < n \<and> n \<le> 21 then take (nat n) digs @ str ''.'' @ drop (nat n) digs
         else if - 6 < n \<and> n \<le> 0 then str ''0.'' @ replicate (nat (- n)) 0x30 @ digs
         else
           let e = n - 1;
               ex = str ''e'' @ (if e < 0 then str ''-'' else str ''+'') @ dec_str (nat \<bar>e\<bar>)
           in if k = 1 then digs @ ex
              else take 1 digs @ str ''.'' @ drop 1 digs @ ex)"

text \<open>The shortest digits are found for every double; the exact expansion stands in
  for a value that has none within its length.\<close>

definition positive_toString :: "rat \<Rightarrow> jstring" where
  "positive_toString x =
     (case shortest_digits x (decimal_exponent x) [1 ..< Suc (length (fst (exact_decimal x)))] of
        Some (s, n) \<Rightarrow> format_number (nat_digits (nat s)) n
      | None \<Rightarrow> format_number (fst (exact_decimal x)) (snd (exact_decimal x)))"

fun Number_toString :: "jsnum \<Rightarrow> jstring" where
  "Number_toString NaN = str ''NaN''"
| "Number_toString PInf = str ''Infinity''"
| "Number_toString NInf = str ''-Infinity''"
| "Number_toString (Fin x) =
     (if x = 0 then str ''0''
      else if x < 0 then str ''-'' @ positive_toString (- x)
      else positive_toString x)"

subsection \<open>StringToNumber\<close>

definition trim :: "jstring \<Rightarrow> jstring" where
  "trim s = rev (dropWhile is_space (rev (dropWhile is_space s)))"

text \<open>ExponentPart, when it makes up the whole rest of the literal; absent, it is 0.\<close>

definition exponent_part :: "jstring \<Rightarrow> int option" where
  "exponent_part s =
     (case s of
        [] \<Rightarrow> Some 0
      | c # r \<Rightarrow>
          if c = 0x65 \<or> c = 0x45 then
            (case r of
               [] \<Rightarrow> None
             | d # r' \<Rightarrow>
                 if d = 0x2B \<or> d = 0x2D then
                   (if r' \<noteq> [] \<and> list_all is_digit r'
                    then Some (if d = 0x2D then - int (dec_val r') else int (dec_val r'))
                    else None)
                 else if list_all is_digit r then Some (int (dec_val r)) else None)
          else None)"

text \<open>The mathematical value of a StrUnsignedDecimalLiteral other than \<open>Infinity\<close>.\<close>

definition unsigned_decimal :: "jstring \<Rightarrow> rat option" where
  "unsigned_decimal s =
     (let ip = takeWhile is_digit s; r1 = dropWhile is_digit s
      in case r1 of
           c # r2 \<Rightarrow>
             if c = 0x2E then
               (let fp = takeWhile is_digit r2; r3 = dropWhile is_digit r2
                in if ip = [] \<and> fp = [] then None
                   else case exponent_part r3 of
                     None \<Rightarrow> None
                   | Some e \<Rightarrow>
                       Some ((of_nat (dec_val ip) + of_nat (dec_val fp) * pow10 (- int (length fp)))
                             * pow10 e))
             else if ip = [] then None
             else (case exponent_part r1 of
                     None \<Rightarrow> None
                   | Some e \<Rightarrow> Some (of_nat (dec_val ip) * pow10 e))
         | [] \<Rightarrow> if ip = [] then None else Some (of_nat (dec_val ip)))"

definition radix_digit :: "nat \<Rightarrow> code_unit \<Rightarrow> bool" where
  "radix_digit b c = (case hex_val c of Some d \<Rightarrow> d < b | None \<Rightarrow> False)"

text \<open>NonDecimalIntegerLiteral: \<open>0b\<close>, \<open>0o\<close> or \<open>0x\<close> (either case) and at least one digit.\<close>

definition non_decimal :: "jstring \<Rightarrow> rat option" where
  "non_decimal s =
     (case s of
        z # p # ds \<Rightarrow>
          (let b = (if p = 0x62 \<or> p = 0x42 then 2
                    else if p = 0x6F \<or> p = 0x4F then 8
                    else if p = 0x78 \<or> p = 0x58 then 16 else (0::nat))
           in if z = 0x30 \<and> b \<noteq> 0 \<and> ds \<noteq> [] \<and> list_all (radix_digit b) ds
              then Some (of_nat (digits_val b 0 (map (\<lambda>c. the (hex_val c)) ds)))
              else None)
      | _ \<Rightarrow> None)"

definition StringToNumber :: "jstring \<Rightarrow> jsnum" where
  "StringToNumber s =
     (let t = trim s
      in if t = [] then Fin 0
         else if t = str ''Infinity'' \<or> t = str ''+Infinity'' then PInf
         else if t = str ''-Infinity'' then NInf
         else case non_decimal t of
           Some v \<Rightarrow> to_double v
         | None \<Rightarrow>
             (case t of
                c # r \<Rightarrow>
                  if c = 0x2D then
                    (case unsigned_decimal r of Some v \<Rightarrow> to_double (- v) | None \<Rightarrow> NaN)
                  else if c = 0x2B then
                    (case unsigned_decimal r of Some v \<Rightarrow> to_double v | None \<Rightarrow> NaN)
                  else
                    (case unsigned_decimal t of Some v \<Rightarrow> to_double v | None \<Rightarrow> NaN)
              | [] \<Rightarrow> NaN))"

section \<open>Operations of the language on values\<close>

text \<open>Sequencing of computations that may throw: the first exception wins.\<close>

definition bindE :: "exn + 'a \<Rightarrow> ('a \<Rightarrow> exn + 'b) \<Rightarrow> exn + 'b" where
  "bindE r f = (case r of Inl e \<Rightarrow> Inl e | Inr v \<Rightarrow> f v)"

text \<open>ToBoolean.\<close>

fun truthy :: "js \<Rightarrow> bool" where
  "truthy JUndefined = False"
| "truthy JNull = False"
| "truthy (JBool b) = b"
| "truthy (JNum n) = (n \<noteq> NaN \<and> n \<noteq> Fin 0)"
| "truthy (JStr s) = (s \<noteq> [])"
| "truthy (JArr xs) = True"
| "truthy (JObj ps) = True"

text \<open>The operators \<open>a || b\<close> and \<open>a ?? b\<close>, for a right operand that is a literal.\<close>

definition js_or :: "js \<Rightarrow> js \<Rightarrow> js" where
  "js_or a b = (if truthy a then a else b)"

definition nullish :: "js \<Rightarrow> bool" where
  "nullish v \<longleftrightarrow> v = JUndefined \<or> v = JNull"

definition js_coalesce :: "js \<Rightarrow> js \<Rightarrow> js" where
  "js_coalesce a b = (if nullish a then b else a)"

text \<open>
  ToString. An array is joined with commas (\<open>undefined\<close> and \<open>null\<close> elements give the
  empty string). A plain object gives \<open>[object Object]\<close>, unless it has an own property
  \<open>toString\<close>: a parsed JSON value is never callable, so the conversion then finds no
  method and throws.
\<close>

definition join_with :: "jstring \<Rightarrow> jstring list \<Rightarrow> jstring" where
  "join_with sep xs = (case xs of [] \<Rightarrow> [] | y # ys \<Rightarrow> y @ concat (map (\<lambda>z. sep @ z) ys))"

fun ToString :: "js \<Rightarrow> exn + jstring"
  and ToString_elements :: "js list \<Rightarrow> exn + jstring list" where
  "ToString JUndefined = Inr (str ''undefined'')"
| "ToString JNull = Inr (str ''null'')"
| "ToString (JBool b) = Inr (if b then str ''true'' else str ''false'')"
| "ToString (JNum n) = Inr (Number_toString n)"
| "ToString (JStr s) = Inr s"
| "ToString (JArr xs) =
     (case ToString_elements xs of Inl e \<Rightarrow> Inl e | Inr ss \<Rightarrow> Inr (join_with (str '','') ss))"
| "ToString (JObj ps) =
     (if str ''toString'' \<in> set (map fst ps) then Inl TypeError
      else Inr (str ''[object Object]''))"
| "ToString_elements [] = Inr []"
| "ToString_elements (x # xs) =
     (case (if nullish x then Inr [] else ToString x) of
        Inl e \<Rightarrow> Inl e
      | Inr s \<Rightarrow> (case ToString_elements xs of Inl e \<Rightarrow> Inl e | Inr ss \<Rightarrow> Inr (s # ss)))"

text \<open>ToNumber; an array or object is first converted to a primitive, which for the
  values at hand is its string.\<close>

definition ToNumber :: "js \<Rightarrow> exn + jsnum" where
  "ToNumber v =
     (case v of
        JUndefined \<Rightarrow> Inr NaN
      | JNull \<Rightarrow> Inr (Fin 0)
      | JBool b \<Rightarrow> Inr (Fin (if b then 1 else 0))
      | JNum n \<Rightarrow> Inr n
      | JStr s \<Rightarrow> Inr (StringToNumber s)
      | _ \<Rightarrow> bindE (ToString v) (\<lambda>s. Inr (StringToNumber s)))"

text \<open>\<open>Math.round\<close> on a number: the nearest integer, a tie going up.\<close>

fun Math_round :: "jsnum \<Rightarrow> jsnum" where
  "Math_round (Fin x) = Fin (of_int \<lfloor>x + 1 / 2\<rfloor>)"
| "Math_round n = n"

text \<open>\<open>v > 0\<close>.\<close>

definition greater_than_zero :: "js \<Rightarrow> exn + bool" where
  "greater_than_zero v =
     bindE (ToNumber v) (\<lambda>n. Inr (case n of Fin x \<Rightarrow> 0 < x | PInf \<Rightarrow> True | _ \<Rightarrow> False))"

text \<open>An array index: a canonical decimal numeral below \<open>2^32 - 1\<close>.\<close>

definition array_index :: "jstring \<Rightarrow> nat option" where
  "array_index k =
     (if k \<noteq> [] \<and> list_all is_digit k \<and> (hd k \<noteq> 0x30 \<or> length k = 1) \<and> dec_val k < 2 ^ 32 - 1
      then Some (dec_val k) else None)"

text \<open>
  Reading a data property, \<open>v.k\<close> or \<open>v[k]\<close>. It throws on \<open>undefined\<close> and \<open>null\<close>. The
  keys that the program reads name no property of a prototype, except \<open>length\<close> of
  strings and arrays; the methods it calls (\<open>map\<close>, \<open>toLowerCase\<close>, \<open>match\<close>) are
  treated where they are called.
\<close>

definition Get :: "js \<Rightarrow> jstring \<Rightarrow> exn + js" where
  "Get v k =
     (case v of
        JUndefined \<Rightarrow> Inl TypeError
      | JNull \<Rightarrow> Inl TypeError
      | JBool b \<Rightarrow> Inr JUndefined
      | JNum n \<Rightarrow> Inr JUndefined
      | JStr s \<Rightarrow>
          Inr (if k = str ''length'' then JNum (Fin (of_nat (length s)))
               else case array_index k of
                 Some i \<Rightarrow> if i < length s then JStr [s ! i] else JUndefined
               | None \<Rightarrow> JUndefined)
      | JArr xs \<Rightarrow>
          Inr (if k = str ''length'' then JNum (Fin (of_nat (length xs)))
               else case array_index k of
                 Some i \<Rightarrow> if i < length xs then xs ! i else JUndefined
               | None \<Rightarrow> JUndefined)
      | JObj ps \<Rightarrow> Inr (case map_of ps k of Some x \<Rightarrow> x | None \<Rightarrow> JUndefined))"

section \<open>The result renderer: \<open>displayResults\<close>\<close>

text \<open>
  \<open>s.toLowerCase()\<close> is kept symbolic: the value records the string that is lowered.
\<close>

datatype lowered = ToLowerCase jstring

text \<open>\<open>c.toLowerCase()\<close>: only a string has the method.\<close>

definition call_toLowerCase :: "js \<Rightarrow> exn + lowered" where
  "call_toLowerCase c = (case c of JStr s \<Rightarrow> Inr (ToLowerCase s) | _ \<Rightarrow> Inl TypeError)"

text \<open>
  The markup that \<open>displayResults\<close> builds is its template with the substitutions
  filled in; the record holds the text of each substitution, in the order of the
  template.
\<close>

record results_html =
  total_calories_span :: jstring
  confidence_class :: lowered
  confidence_pill :: jstring
  protein_p :: jstring
  carbs_p :: jstring
  fat_p :: jstring
  fiber_p :: jstring
  items_ul :: jstring
  sugar_li :: jstring
  sodium_li :: jstring
  health_tips_p :: jstring

text \<open>The callback of \<open>items.map\<close>.\<close>

definition item_li :: "js \<Rightarrow> exn + jstring" where
  "item_li item =
     bindE (Get item (str ''item'')) (\<lambda>name.
     bindE (ToString name) (\<lambda>name_text.
     bindE (Get item (str ''calories'')) (\<lambda>calories.
     bindE (ToNumber calories) (\<lambda>n.
       Inr (str ''<li>'' @ name_text @ str '' (~'' @ Number_toString (Math_round n)
            @ str '' kcal)</li>'')))))"

fun map_items :: "js list \<Rightarrow> exn + jstring list" where
  "map_items [] = Inr []"
| "map_items (x # xs) =
     bindE (item_li x) (\<lambda>li. bindE (map_items xs) (\<lambda>lis. Inr (li # lis)))"

text \<open>\<open>items && items.length > 0 ? items.map(...).join('') : '<li>No specific items
  identified.</li>'\<close>. Only an array has the method \<open>map\<close>.\<close>

definition items_list :: "js \<Rightarrow> exn + jstring" where
  "items_list items =
     (if \<not> truthy items then Inr (str ''<li>No specific items identified.</li>'')
      else
        bindE (Get items (str ''length'')) (\<lambda>len.
        bindE (greater_than_zero len) (\<lambda>nonempty.
          if nonempty then
            (case items of
               JArr xs \<Rightarrow> bindE (map_items xs) (\<lambda>lis. Inr (concat lis))
             | _ \<Rightarrow> Inl TypeError)
          else Inr (str ''<li>No specific items identified.</li>''))))"

definition render :: "js \<Rightarrow> exn + results_html" where
  "render data =
     bindE (Get data (str ''items'')) (\<lambda>items.
     bindE (Get data (str ''nutrition_summary'')) (\<lambda>nutrition_summary.
     bindE (Get data (str ''confidence_score'')) (\<lambda>confidence_score.
     bindE (Get data (str ''health_tips'')) (\<lambda>health_tips.
     bindE (Get nutrition_summary (str ''total_calories'')) (\<lambda>total_calories.
     bindE (Get nutrition_summary (str ''macronutrients'')) (\<lambda>macronutrients.
     bindE (Get nutrition_summary (str ''micronutrients'')) (\<lambda>micronutrients.
     bindE (call_toLowerCase (js_or confidence_score (JStr (str ''medium'')))) (\<lambda>confidenceClass.
     bindE (ToNumber total_calories) (\<lambda>tc.
     bindE (ToString (js_or (JNum (Math_round tc)) (JStr (str ''N/A'')))) (\<lambda>h1.
     bindE (ToString (js_or confidence_score (JStr (str ''Medium'')))) (\<lambda>h3.
     bindE (Get macronutrients (str ''protein_g'')) (\<lambda>protein_g.
     bindE (ToString (js_or protein_g (JNum (Fin 0)))) (\<lambda>h4.
     bindE (Get macronutrients (str ''carbs_g'')) (\<lambda>carbs_g.
     bindE (ToString (js_or carbs_g (JNum (Fin 0)))) (\<lambda>h5.
     bindE (Get macronutrients (str ''fat_g'')) (\<lambda>fat_g.
     bindE (ToString (js_or fat_g (JNum (Fin 0)))) (\<lambda>h6.
     bindE (Get macronutrients (str ''fiber_g'')) (\<lambda>fiber_g.
     bindE (ToString (js_or fiber_g (JNum (Fin 0)))) (\<lambda>h7.
     bindE (items_list items) (\<lambda>h8.
     bindE (Get micronutrients (str ''sugar_g'')) (\<lambda>sugar_g.
     bindE (ToString (js_coalesce sugar_g (JStr (str ''N/A'')))) (\<lambda>h9.
     bindE (Get micronutrients (str ''sodium_mg'')) (\<lambda>sodium_mg.
     bindE (ToString (js_coalesce sodium_mg (JStr (str ''N/A'')))) (\<lambda>h10.
     bindE (ToString (js_or health_tips (JStr (str ''Enjoy your meal mindfully!'')))) (\<lambda>h11.
       Inr \<lparr> total_calories_span = h1, confidence_class = confidenceClass,
             confidence_pill = h3, protein_p = h4, carbs_p = h5, fat_p = h6, fiber_p = h7,
             items_ul = h8, sugar_li = h9, sodium_li = h10, health_tips_p = h11 \<rparr>
     )))))))))))))))))))))))))"

section \<open>\<open>JSON.parse\<close>\<close>

definition skip_ws :: "jstring \<Rightarrow> jstring" where
  "skip_ws s = dropWhile is_json_ws s"

text \<open>The single-character escapes of a JSON string.\<close>

definition escape_char :: "code_unit \<Rightarrow> code_unit option" where
  "escape_char e =
     (if e = 0x22 then Some 0x22
      else if e = 0x5C then Some 0x5C
      else if e = 0x2F then Some 0x2F
      else if e = 0x62 then Some 0x08
      else if e = 0x66 then Some 0x0C
      else if e = 0x6E then Some 0x0A
      else if e = 0x72 then Some 0x0D
      else if e = 0x74 then Some 0x09
      else None)"

definition hex4 :: "code_unit \<Rightarrow> code_unit \<Rightarrow> code_unit \<Rightarrow> code_unit \<Rightarrow> code_unit option" where
  "hex4 h1 h2 h3 h4 =
     (case (hex_val h1, hex_val h2, hex_val h3, hex_val h4) of
        (Some a, Some b, Some c, Some d) \<Rightarrow> Some (of_nat (((a * 16 + b) * 16 + c) * 16 + d))
      | _ \<Rightarrow> None)"

definition cons_fst :: "'a \<Rightarrow> ('a list \<times> 'b) option \<Rightarrow> ('a list \<times> 'b) option" where
  "cons_fst c r = (case r of None \<Rightarrow> None | Some (s, t) \<Rightarrow> Some (c # s, t))"

text \<open>The characters of a JSON string after its opening quote, up to the closing
  quote: the string's value and the text that follows.\<close>

fun json_chars :: "jstring \<Rightarrow> (jstring \<times> jstring) option" where
  "json_chars [] = None"
| "json_chars (c # cs) =
     (if c = 0x22 then Some ([], cs)
      else if c = 0x5C then
        (case cs of
           [] \<Rightarrow> None
         | e # r \<Rightarrow>
             if e = 0x75 then
               (case r of
                  h1 # h2 # h3 # h4 # r' \<Rightarrow>
                    (case hex4 h1 h2 h3 h4 of
                       None \<Rightarrow> None
                     | Some u \<Rightarrow> cons_fst u (json_chars r'))
                | _ \<Rightarrow> None)
             else
               (case escape_char e of
                  None \<Rightarrow> None
                | Some u \<Rightarrow> cons_fst u (json_chars r)))
      else if c < 0x20 then None
      else cons_fst c (json_chars cs))"

text \<open>\<open>-? (0 | [1-9][0-9]*) (. [0-9]+)? ([eE] [+-]? [0-9]+)?\<close>, and its value as a double.\<close>

definition json_exponent :: "jstring \<Rightarrow> (int \<times> jstring) option" where
  "json_exponent s =
     (case s of
        [] \<Rightarrow> Some (0, s)
      | c # r \<Rightarrow>
          if c = 0x65 \<or> c = 0x45 then
            (let (neg, r1) =
                   (case r of
                      [] \<Rightarrow> (False, r)
                    | d # r' \<Rightarrow> if d = 0x2D then (True, r') else if d = 0x2B then (False, r')
                                else (False, r));
                 ds = takeWhile is_digit r1
             in if ds = [] then None
                else Some (if neg then - int (dec_val ds) else int (dec_val ds),
                           dropWhile is_digit r1))
          else Some (0, s))"

definition json_fraction :: "jstring \<Rightarrow> (jstring \<times> jstring) option" where
  "json_fraction s =
     (case s of
        [] \<Rightarrow> Some ([], s)
      | c # r \<Rightarrow>
          if c = 0x2E then
            (let ds = takeWhile is_digit r
             in if ds = [] then None else Some (ds, dropWhile is_digit r))
          else Some ([], s))"

definition json_sign :: "jstring \<Rightarrow> bool \<times> jstring" where
  "json_sign s =
     (case s of [] \<Rightarrow> (False, s) | c # r \<Rightarrow> if c = 0x2D then (True, r) else (False, s))"

definition json_int :: "jstring \<Rightarrow> (jstring \<times> jstring) option" where
  "json_int s =
     (case s of
        [] \<Rightarrow> None
      | c # r \<Rightarrow>
          if c = 0x30 then Some ([c], r)
          else if is_digit c then Some (takeWhile is_digit s, dropWhile is_digit s)
          else None)"

definition json_number :: "jstring \<Rightarrow> (jsnum \<times> jstring) option" where
  "json_number s =
     (case json_sign s of
        (neg, s1) \<Rightarrow>
          (case json_int s1 of
             None \<Rightarrow> None
           | Some (ip, r1) \<Rightarrow>
               (case json_fraction r1 of
                  None \<Rightarrow> None
                | Some (fp, r2) \<Rightarrow>
                    (case json_exponent r2 of
                       None \<Rightarrow> None
                     | Some (e, r3) \<Rightarrow>
                         (let v = (of_nat (dec_val ip)
                                   + of_nat (dec_val fp) * pow10 (- int (length fp))) * pow10 e
                          in Some (to_double (if neg then - v else v), r3))))))"

text \<open>
  Defining a property of the object under construction. A key that is present keeps
  its place and takes the new value; a new array index goes among the array indices,
  in ascending order; any other new key goes last.
\<close>

fun obj_update :: "jstring \<Rightarrow> js \<Rightarrow> (jstring \<times> js) list \<Rightarrow> (jstring \<times> js) list" where
  "obj_update k v [] = []"
| "obj_update k v (p # ps) = (if fst p = k then (k, v) # ps else p # obj_update k v ps)"

fun insert_index :: "nat \<Rightarrow> jstring \<Rightarrow> js \<Rightarrow> (jstring \<times> js) list \<Rightarrow> (jstring \<times> js) list" where
  "insert_index i k v [] = [(k, v)]"
| "insert_index i k v (p # ps) =
     (case array_index (fst p) of
        Some j \<Rightarrow> if j < i then p # insert_index i k v ps else (k, v) # p # ps
      | None \<Rightarrow> (k, v) # p # ps)"

definition obj_put :: "(jstring \<times> js) list \<Rightarrow> jstring \<Rightarrow> js \<Rightarrow> (jstring \<times> js) list" where
  "obj_put ps k v =
     (if k \<in> set (map fst ps) then obj_update k v ps
      else case array_index k of
        Some i \<Rightarrow> insert_index i k v ps
      | None \<Rightarrow> ps @ [(k, v)])"

lemma length_skip_ws: "length (skip_ws s) \<le> length s"
  by (simp add: skip_ws_def length_dropWhile_le)

lemma json_chars_length: "json_chars s = Some (x, t) \<Longrightarrow> length t < length s"
proof (induction s arbitrary: x t rule: json_chars.induct)
  case 1
  then show ?case by simp
next
  case (2 c cs)
  then show ?case
    by (fastforce simp: cons_fst_def split: if_splits list.splits option.splits)
qed

text \<open>
  The recursive descent through values, array elements and object members. Each
  function is given the text from its first significant character on and returns
  what it read with the text that follows. The guards on the lengths are always met
  (\<open>parse_value_length\<close> below): each value takes at least one character.
\<close>

function parse_value :: "jstring \<Rightarrow> (js \<times> jstring) option"
  and parse_elements :: "jstring \<Rightarrow> (js list \<times> jstring) option"
  and parse_members :: "(jstring \<times> js) list \<Rightarrow> jstring \<Rightarrow> ((jstring \<times> js) list \<times> jstring) option"
where
  "parse_value s =
     (case s of
        [] \<Rightarrow> None
      | c # r \<Rightarrow>
          if c = 0x7B then
            (case skip_ws r of
               [] \<Rightarrow> None
             | d # t \<Rightarrow>
                 if d = 0x7D then Some (JObj [], t)
                 else (case parse_members [] (skip_ws r) of
                         None \<Rightarrow> None
                       | Some (ms, u) \<Rightarrow> Some (JObj ms, u)))
          else if c = 0x5B then
            (case skip_ws r of
               [] \<Rightarrow> None
             | d # t \<Rightarrow>
                 if d = 0x5D then Some (JArr [], t)
                 else (case parse_elements (skip_ws r) of
                         None \<Rightarrow> None
                       | Some (vs, u) \<Rightarrow> Some (JArr vs, u)))
          else if c = 0x22 then
            (case json_chars r of None \<Rightarrow> None | Some (x, t) \<Rightarrow> Some (JStr x, t))
          else if take 4 s = str ''true'' then Some (JBool True, drop 4 s)
          else if take 5 s = str ''false'' then Some (JBool False, drop 5 s)
          else if take 4 s = str ''null'' then Some (JNull, drop 4 s)
          else (case json_number s of None \<Rightarrow> None | Some (n, t) \<Rightarrow> Some (JNum n, t)))"
| "parse_elements s =
     (case parse_value s of
        None \<Rightarrow> None
      | Some (v, t) \<Rightarrow>
          (case skip_ws t of
             [] \<Rightarrow> None
           | c # u \<Rightarrow>
               if c = 0x2C then
                 (if length u < length s then
                    (case parse_elements (skip_ws u) of
                       None \<Rightarrow> None
                     | Some (vs, w) \<Rightarrow> Some (v # vs, w))
                  else None)
               else if c = 0x5D then Some ([v], u)
               else None))"
| "parse_members acc s =
     (case s of
        [] \<Rightarrow> None
      | q # r \<Rightarrow>
          if q = 0x22 then
            (case json_chars r of
               None \<Rightarrow> None
             | Some (k, t) \<Rightarrow>
                 (case skip_ws t of
                    [] \<Rightarrow> None
                  | c # u \<Rightarrow>
                      if c = 0x3A then
                        (case parse_value (skip_ws u) of
                           None \<Rightarrow> None
                         | Some (v, w) \<Rightarrow>
                             (case skip_ws w of
                                [] \<Rightarrow> None
                              | d # x \<Rightarrow>
                                  if d = 0x2C then
                                    (if length x < length s
                                     then parse_members (obj_put acc k v) (skip_ws x)
                                     else None)
                                  else if d = 0x7D then Some (obj_put acc k v, x)
                                  else None))
                      else None))
          else None)"
  by pat_completeness auto

termination
  apply (relation "measure (\<lambda>x. case x of Inl s \<Rightarrow> 2 * length s | Inr (Inl s) \<Rightarrow> 2 * length s + 1
                | Inr (Inr (acc, s)) \<Rightarrow> 2 * length s + 1)")
        apply simp
  subgoal for s c r using length_skip_ws [of r] by simp
  subgoal for s c r using length_skip_ws [of r] by simp
  subgoal by simp
  subgoal for s x v t c u using length_skip_ws [of u] by simp
  subgoal for acc s q r x k t c u
    using length_skip_ws [of u] length_skip_ws [of t] json_chars_length [of r k t] by simp
  subgoal for acc s q r x k t c u y v w d z using length_skip_ws [of z] by simp
  done

declare parse_value.simps [simp del] parse_elements.simps [simp del] parse_members.simps [simp del]

text \<open>\<open>JSON.parse\<close> of a text: one value, with white space around it and nothing else.\<close>

definition JSON_parse_text :: "jstring \<Rightarrow> exn + js" where
  "JSON_parse_text s =
     (case parse_value (skip_ws s) of
        None \<Rightarrow> Inl SyntaxError
      | Some (v, t) \<Rightarrow> if skip_ws t = [] then Inr v else Inl SyntaxError)"

text \<open>\<open>JSON.parse\<close> converts its argument to a string first.\<close>

definition JSON_parse :: "js \<Rightarrow> exn + js" where
  "JSON_parse v = bindE (ToString v) JSON_parse_text"

section \<open>The response extractor: \<open>extractJson\<close>\<close>

text \<open>
  The regular expression of \<open>extractJson\<close>, with a backtick written \<open>`\<close>:
  \<^verbatim>\<open>```json\s*([\s\S]*?)\s*```|({[\s\S]*})\<close>.
  Each function below is one piece of the backtracking matcher, tried at the head of
  the text it is given, and makes its choices in the matcher's order: a greedy star
  takes a character first and gives it back when the rest fails, a lazy star tries the
  rest first.
\<close>

definition starts_with :: "jstring \<Rightarrow> jstring \<Rightarrow> bool" where
  "starts_with p s \<longleftrightarrow> take (length p) s = p"

text \<open>\<^verbatim>\<open>\s*```\<close>\<close>

fun closing_fence :: "jstring \<Rightarrow> bool" where
  "closing_fence [] = False"
| "closing_fence (c # cs) =
     ((is_space c \<and> closing_fence cs) \<or> starts_with (str ''```'') (c # cs))"

text \<open>\<^verbatim>\<open>([\s\S]*?)\s*```\<close>: the capture.\<close>

fun lazy_capture :: "jstring \<Rightarrow> jstring option" where
  "lazy_capture [] = None"
| "lazy_capture (c # cs) =
     (if closing_fence (c # cs) then Some []
      else case lazy_capture cs of None \<Rightarrow> None | Some g \<Rightarrow> Some (c # g))"

text \<open>\<^verbatim>\<open>\s*([\s\S]*?)\s*```\<close>: the capture.\<close>

fun fence_body :: "jstring \<Rightarrow> jstring option" where
  "fence_body [] = lazy_capture []"
| "fence_body (c # cs) =
     (if is_space c then
        (case fence_body cs of Some g \<Rightarrow> Some g | None \<Rightarrow> lazy_capture (c # cs))
      else lazy_capture (c # cs))"

text \<open>The first alternative, at the head of the text.\<close>

definition json_fence :: "jstring \<Rightarrow> jstring option" where
  "json_fence s = (if starts_with (str ''```json'') s then fence_body (drop 7 s) else None)"

text \<open>\<^verbatim>\<open>[\s\S]*}\<close>: the text matched.\<close>

fun greedy_to_brace :: "jstring \<Rightarrow> jstring option" where
  "greedy_to_brace [] = None"
| "greedy_to_brace (c # cs) =
     (case greedy_to_brace cs of
        Some m \<Rightarrow> Some (c # m)
      | None \<Rightarrow> if c = 0x7D then Some [c] else None)"

text \<open>The second alternative, at the head of the text.\<close>

definition braces :: "jstring \<Rightarrow> jstring option" where
  "braces s =
     (case s of
        [] \<Rightarrow> None
      | c # cs \<Rightarrow>
          if c = 0x7B then (case greedy_to_brace cs of None \<Rightarrow> None | Some m \<Rightarrow> Some (c # m))
          else None)"

text \<open>
  \<open>text.match(re)\<close> for this expression, which has no global flag: the match at the
  leftmost position that has one, the first alternative before the second at each
  position. The result is \<open>(match[1], match[2])\<close>; a group that took no part is
  \<open>undefined\<close>.
\<close>

fun regex_match :: "jstring \<Rightarrow> (js \<times> js) option" where
  "regex_match s =
     (case json_fence s of
        Some g \<Rightarrow> Some (JStr g, JUndefined)
      | None \<Rightarrow>
          (case braces s of
             Some m \<Rightarrow> Some (JUndefined, JStr m)
           | None \<Rightarrow> (case s of [] \<Rightarrow> None | c # cs \<Rightarrow> regex_match cs)))"

declare regex_match.simps [simp del]

text \<open>
  What \<open>extractJson\<close> returns. Only a string has the method \<open>match\<close>. What its \<open>catch\<close>
  block writes to the console is \<open>extractJson_console\<close> below.
\<close>

definition extractJson :: "js \<Rightarrow> exn + js" where
  "extractJson text =
     (case text of
        JStr s \<Rightarrow>
          (case regex_match s of
             None \<Rightarrow> Inr JNull
           | Some (m1, m2) \<Rightarrow>
               (let jsonString = js_or m1 m2
                in case JSON_parse jsonString of
                     Inr v \<Rightarrow> Inr v
                   | Inl e \<Rightarrow> Inr JNull))
      | _ \<Rightarrow> Inl TypeError)"

text \<open>
  The errors that \<open>extractJson\<close> logs with \<open>console.error\<close>: the exception of
  \<open>JSON.parse\<close>, when it throws on the candidate.
\<close>

definition extractJson_console :: "js \<Rightarrow> exn list" where
  "extractJson_console text =
     (case text of
        JStr s \<Rightarrow>
          (case regex_match s of
             None \<Rightarrow> []
           | Some (m1, m2) \<Rightarrow>
               (let jsonString = js_or m1 m2
                in case JSON_parse jsonString of
                     Inr v \<Rightarrow> []
                   | Inl e \<Rightarrow> [e]))
      | _ \<Rightarrow> [])"

section \<open>The page and the pipeline\<close>

datatype view = initial_view | camera_view | loading_view | results_view

text \<open>What \<open>alert\<close> shows. The message of an exception that the runtime raises is the
  runtime's own text and is kept symbolic.\<close>

datatype notice = Notice jstring | RuntimeNotice jstring exn

type_synonym track = nat

record request =
  url :: jstring
  authorization :: jstring
  model :: jstring
  max_tokens :: nat
  prompt_text :: jstring
  image_url :: jstring

text \<open>
  The state that the handlers share: the variable \<open>currentStream\<close> (the tracks of the
  open camera stream, or \<open>null\<close>), the elements of the page that they write, and the
  traces of their effects (tracks stopped, alerts shown, errors logged, requests sent,
  the timer of \<open>displayResults\<close> set).
\<close>

record page =
  currentStream :: "track list option"
  stopped_tracks :: "track list"
  cameraStream_srcObject :: "track list option"
  imagePreview_src :: jstring
  uploadPhotoInput_value :: jstring
  resultsContent_innerHTML :: "results_html option"
  results_view_visible :: bool
  active_view :: view
  visible_timer_set :: bool
  alerts :: "notice list"
  console_errors :: "exn list"
  requests :: "request list"

definition showView :: "view \<Rightarrow> page \<Rightarrow> page" where
  "showView viewId st = st\<lparr>active_view := viewId\<rparr>"

definition resetToInitialView :: "page \<Rightarrow> page" where
  "resetToInitialView st =
     (let st1 = (case currentStream st of
                   Some ts \<Rightarrow> st\<lparr>stopped_tracks := stopped_tracks st @ ts, currentStream := None\<rparr>
                 | None \<Rightarrow> st)
      in showView initial_view
           (st1\<lparr>cameraStream_srcObject := None,
                imagePreview_src := [],
                uploadPhotoInput_value := [],
                resultsContent_innerHTML := None,
                results_view_visible := False\<rparr>))"

definition displayResults :: "js \<Rightarrow> page \<Rightarrow> exn + page" where
  "displayResults data st =
     bindE (render data) (\<lambda>html.
       Inr ((showView results_view (st\<lparr>resultsContent_innerHTML := Some html\<rparr>))
              \<lparr>visible_timer_set := True\<rparr>))"

definition API_KEY :: jstring where
  "API_KEY = str ''__NUTRI_AI_API_KEY__''"

definition API_URL :: jstring where
  "API_URL = str ''https://models.inference.ai.azure.com/chat/completions''"

definition AI_PROMPT :: jstring where
  \<open>AI_PROMPT = str ''Analyze the meal in the image. Respond ONLY with a valid JSON object. Do not include markdown or text outside the JSON. The structure must be: {"items": [{"item": "string", "calories": number}], "nutrition_summary": {"total_calories": number, "macronutrients": {"protein_g": number, "carbs_g": number, "fat_g": number, "fiber_g": number}, "micronutrients": {"sugar_g": number, "sodium_mg": number}}, "general_summary": "string", "confidence_score": "string (High, Medium, or Low)", "health_tips": "string"}''\<close>

text \<open>
  What \<open>fetch\<close> comes back with: a rejection (the network failed), or a response with
  its status, its status text and the outcome of \<open>response.json()\<close>.
\<close>

record response =
  status :: nat
  statusText :: jstring
  json :: "exn + js"

datatype fetch_outcome = Rejected exn | Resolved response

definition ok :: "response \<Rightarrow> bool" where
  "ok r \<longleftrightarrow> 200 \<le> status r \<and> status r \<le> 299"

text \<open>\<open>error.message\<close> in the alert of the \<open>catch\<close> block.\<close>

definition failure_notice :: "exn \<Rightarrow> notice" where
  "failure_notice e =
     (case e of
        Error m \<Rightarrow> Notice (str ''Analysis failed: '' @ m)
      | NetworkError m \<Rightarrow> Notice (str ''Analysis failed: '' @ m)
      | _ \<Rightarrow> RuntimeNotice (str ''Analysis failed: '') e)"

text \<open>The \<open>catch\<close> block of \<open>analyzeImage\<close>.\<close>

definition catch_block :: "exn \<Rightarrow> page \<Rightarrow> page" where
  "catch_block e st =
     resetToInitialView
       (st\<lparr>console_errors := console_errors st @ [e], alerts := alerts st @ [failure_notice e]\<rparr>)"

text \<open>\<open>data.choices[0].message.content\<close>\<close>

definition completion_content :: "js \<Rightarrow> exn + js" where
  "completion_content data =
     bindE (Get data (str ''choices'')) (\<lambda>choices.
     bindE (Get choices (str ''0'')) (\<lambda>choice.
     bindE (Get choice (str ''message'')) (\<lambda>message.
       Get message (str ''content''))))"

text \<open>
  The \<open>try\<close> block of \<open>analyzeImage\<close>, from the outcome of \<open>fetch\<close> on. An exception
  leaves it together with the page as it is when it is thrown: the call of
  \<open>extractJson\<close> may have written to the console.
\<close>

definition try_block :: "fetch_outcome \<Rightarrow> page \<Rightarrow> (exn \<times> page) + page" where
  "try_block outcome st =
     (case outcome of
        Rejected e \<Rightarrow> Inl (e, st)
      | Resolved r \<Rightarrow>
          if \<not> ok r then
            Inl (Error (str ''API Error: '' @ Number_toString (Fin (of_nat (status r)))
                        @ str '' '' @ statusText r), st)
          else
            (case bindE (json r) completion_content of
               Inl e \<Rightarrow> Inl (e, st)
             | Inr content \<Rightarrow>
                 (case extractJson content of
                    Inl e \<Rightarrow> Inl (e, st)
                  | Inr jsonData \<Rightarrow>
                      let st1 = st\<lparr>console_errors :=
                                   console_errors st @ extractJson_console content\<rparr>
                      in if truthy jsonData then
                           (case displayResults jsonData st1 of
                              Inl e \<Rightarrow> Inl (e, st1)
                            | Inr st2 \<Rightarrow> Inr st2)
                         else Inl (Error (str ''Failed to parse JSON from AI response.''), st1))))"

text \<open>
  \<open>analyzeImage\<close>, for the value \<open>key\<close> of the constant \<open>API_KEY\<close> in the deployed
  script and the outcome of the request, should one be sent.
\<close>

definition analyzeImage :: "jstring \<Rightarrow> jstring \<Rightarrow> fetch_outcome \<Rightarrow> page \<Rightarrow> page" where
  "analyzeImage key base64Image outcome st =
     (if key = str ''__API_KEY__'' then
        resetToInitialView
          (st\<lparr>alerts := alerts st @
             [Notice (str ''API key is not configured. Please set it up in your deployment process.'')]\<rparr>)
      else
        let st1 = st\<lparr>requests := requests st @
                     [\<lparr>url = API_URL, authorization = str ''Bearer '' @ key,
                       model = str ''gpt-4-vision-preview'', max_tokens = 1024,
                       prompt_text = AI_PROMPT, image_url = base64Image\<rparr>]\<rparr>
        in case try_block outcome st1 of
             Inr st2 \<Rightarrow> st2
           | Inl (e, st2) \<Rightarrow> catch_block e st2)"

section \<open>Properties of the pipeline\<close>

text \<open>
  What a full reset of the page \<open>st\<close> leaves: the initial view is active, the camera
  stream is released (every track of the stream that was open is stopped, the variable
  and the video element are cleared), the preview and the file input hold nothing, and
  the results are gone.
\<close>

definition full_reset :: "page \<Rightarrow> page \<Rightarrow> bool" where
  "full_reset st st' \<longleftrightarrow>
     active_view st' = initial_view \<and> currentStream st' = None \<and>
     stopped_tracks st' = stopped_tracks st @ (case currentStream st of None \<Rightarrow> [] | Some ts \<Rightarrow> ts) \<and>
     cameraStream_srcObject st' = None \<and> imagePreview_src st' = [] \<and>
     uploadPhotoInput_value st' = [] \<and> resultsContent_innerHTML st' = None \<and>
     \<not> results_view_visible st'"

lemma bindE_Inr_iff: "bindE r f = Inr y \<longleftrightarrow> (\<exists>v. r = Inr v \<and> f v = Inr y)"
  by (cases r) (simp_all add: bindE_def)

lemma bindE_Inl_iff: "bindE r f = Inl e \<longleftrightarrow> r = Inl e \<or> (\<exists>v. r = Inr v \<and> f v = Inl e)"
  by (cases r) (simp_all add: bindE_def)

lemma bindE_simps [simp]: "bindE (Inl e) f = Inl e" "bindE (Inr v) f = f v"
  by (simp_all add: bindE_def)

lemma resetToInitialView_full_reset: "full_reset st (resetToInitialView st)"
  by (simp add: full_reset_def resetToInitialView_def showView_def split: option.splits)

lemma resetToInitialView_traces:
  "alerts (resetToInitialView st) = alerts st"
  "requests (resetToInitialView st) = requests st"
  "console_errors (resetToInitialView st) = console_errors st"
  by (simp_all add: resetToInitialView_def showView_def split: option.splits)

lemma full_reset_cong:
  "currentStream st1 = currentStream st \<Longrightarrow> stopped_tracks st1 = stopped_tracks st \<Longrightarrow>
   full_reset st1 st' \<Longrightarrow> full_reset st st'"
  by (simp add: full_reset_def)

lemma catch_block_effect:
  "alerts (catch_block e st) = alerts st @ [failure_notice e]"
  "requests (catch_block e st) = requests st"
  "full_reset st (catch_block e st)"
  unfolding catch_block_def
    apply (simp_all add: resetToInitialView_traces)
  apply (rule full_reset_cong [OF _ _ resetToInitialView_full_reset])
   apply simp_all
  done

lemma displayResults_requests: "displayResults data st = Inr st2 \<Longrightarrow> requests st2 = requests st"
  by (auto simp: displayResults_def showView_def bindE_Inr_iff)

lemma try_block_requests:
  "try_block outcome st = Inr st2 \<Longrightarrow> requests st2 = requests st"
  "try_block outcome st = Inl (e, st2) \<Longrightarrow> requests st2 = requests st"
  by (auto simp: try_block_def Let_def displayResults_requests
      split: fetch_outcome.splits if_splits sum.splits)

lemma API_KEY_not_guard: "API_KEY \<noteq> str ''__API_KEY__''"
  by (simp add: API_KEY_def str_def)

text \<open>
  With the documented placeholder as its key, the guard of \<open>analyzeImage\<close> fires: no
  request is sent, the configuration error is shown, the page is reset.
\<close>

lemma analyzeImage_guard:
  "requests (analyzeImage (str ''__API_KEY__'') base64Image outcome st) = requests st \<and>
   alerts (analyzeImage (str ''__API_KEY__'') base64Image outcome st) =
     alerts st @
       [Notice (str ''API key is not configured. Please set it up in your deployment process.'')] \<and>
   full_reset st (analyzeImage (str ''__API_KEY__'') base64Image outcome st)"
  by (auto simp: analyzeImage_def resetToInitialView_traces
      intro!: full_reset_cong [OF _ _ resetToInitialView_full_reset])

text \<open>
  Claim C1. If the credential placeholder was never replaced, \<open>analyzeImage\<close> should
  stop before any network request, show the configuration error and reset. The script
  as shipped holds the placeholder \<open>__NUTRI_AI_API_KEY__\<close> in \<open>API_KEY\<close>, while the guard
  compares with \<open>__API_KEY__\<close>: for every image and every state the guard is passed
  over and the request is sent, with the placeholder as its bearer credential.
\<close>

theorem analyzeImage_placeholder_sends_request:
  "requests (analyzeImage API_KEY base64Image outcome st) =
     requests st @
       [\<lparr>url = API_URL, authorization = str ''Bearer __NUTRI_AI_API_KEY__'',
         model = str ''gpt-4-vision-preview'', max_tokens = 1024,
         prompt_text = AI_PROMPT, image_url = base64Image\<rparr>]"
proof -
  have key: "str ''Bearer '' @ API_KEY = str ''Bearer __NUTRI_AI_API_KEY__''"
    by (simp add: API_KEY_def str_def)
  show ?thesis
    using API_KEY_not_guard
    by (auto simp: analyzeImage_def Let_def key catch_block_effect dest: try_block_requests
        split: sum.splits prod.splits)
qed

text \<open>
  Claim C9. When a request is sent and fails in transport, by a rejection of \<open>fetch\<close>
  (a network failure, with the message \<open>m\<close> of its error) or by a response whose
  status is not a success, the user is shown an alert with the detail (the message,
  or the status and its text), and the page is fully reset: the tracks of an open
  camera stream are stopped and the stream is cleared, and neither the preview nor
  the file input keeps an image.
\<close>

theorem transport_failure_notifies_and_resets:
  assumes "key \<noteq> str ''__API_KEY__''"
  shows "alerts (analyzeImage key img (Rejected (NetworkError m)) st) =
           alerts st @ [Notice (str ''Analysis failed: '' @ m)] \<and>
         full_reset st (analyzeImage key img (Rejected (NetworkError m)) st) \<and>
         (\<not> ok r \<longrightarrow>
            alerts (analyzeImage key img (Resolved r) st) =
              alerts st @ [Notice (str ''Analysis failed: API Error: ''
                 @ Number_toString (Fin (of_nat (status r))) @ str '' '' @ statusText r)] \<and>
            full_reset st (analyzeImage key img (Resolved r) st))"
  using assms
  by (auto simp: analyzeImage_def Let_def try_block_def catch_block_effect failure_notice_def str_def
      intro!: full_reset_cong [OF _ _ catch_block_effect(3)])


definition page0 :: page where
  "page0 =
     \<lparr>currentStream = Some [1, 2], stopped_tracks = [], cameraStream_srcObject = Some [1, 2],
      imagePreview_src = str ''data:image/jpeg;base64,AAAA'', uploadPhotoInput_value = str ''meal.jpg'',
      resultsContent_innerHTML = None, results_view_visible = False, active_view = loading_view,
      visible_timer_set = False, alerts = [], console_errors = [], requests = []\<rparr>"

definition response500 :: response where
  "response500 = \<lparr>status = 500, statusText = str ''Internal Server Error'', json = Inl SyntaxError\<rparr>"

theorem transport_failure_notifies_and_resets_witness:
  "API_KEY \<noteq> str ''__API_KEY__'' \<and> \<not> ok response500 \<and>
   alerts (analyzeImage API_KEY (str ''img'') (Resolved response500) page0) =
     [Notice (str ''Analysis failed: API Error: '' @ Number_toString (Fin 500)
        @ str '' Internal Server Error'')] \<and>
   full_reset page0 (analyzeImage API_KEY (str ''img'') (Resolved response500) page0) \<and>
   stopped_tracks (analyzeImage API_KEY (str ''img'') (Resolved response500) page0) = [1, 2] \<and>
   alerts (analyzeImage API_KEY (str ''img'') (Rejected (NetworkError (str ''Failed to fetch''))) page0) =
     [Notice (str ''Analysis failed: Failed to fetch'')]"
proof -
  have k: "API_KEY \<noteq> str ''__API_KEY__''"
    by (rule API_KEY_not_guard)
  have r: "\<not> ok response500"
    by (simp add: ok_def response500_def)
  note t = transport_failure_notifies_and_resets
    [OF k, of "str ''img''" "str ''Failed to fetch''" page0 response500]
  from t r have a: "alerts (analyzeImage API_KEY (str ''img'') (Resolved response500) page0) =
     alerts page0 @ [Notice (str ''Analysis failed: API Error: ''
        @ Number_toString (Fin (of_nat (status response500))) @ str '' '' @ statusText response500)]"
    and f: "full_reset page0 (analyzeImage API_KEY (str ''img'') (Resolved response500) page0)"
    and n: "alerts (analyzeImage API_KEY (str ''img'') (Rejected (NetworkError (str ''Failed to fetch''))) page0) =
     alerts page0 @ [Notice (str ''Analysis failed: '' @ str ''Failed to fetch'')]"
    by simp_all
  from f have s: "stopped_tracks (analyzeImage API_KEY (str ''img'') (Resolved response500) page0) = [1, 2]"
    by (simp add: full_reset_def page0_def)
  from a have a': "alerts (analyzeImage API_KEY (str ''img'') (Resolved response500) page0) =
     [Notice (str ''Analysis failed: API Error: '' @ Number_toString (Fin 500)
        @ str '' Internal Server Error'')]"
    by (simp add: page0_def response500_def str_def)
  from n have n': "alerts (analyzeImage API_KEY (str ''img'') (Rejected (NetworkError (str ''Failed to fetch''))) page0) =
     [Notice (str ''Analysis failed: Failed to fetch'')]"
    by (simp add: page0_def str_def)
  from k r a' f s n' show ?thesis by blast
qed

section \<open>Properties of the extractor\<close>

text \<open>Every value that the parser reads takes at least one character, so the guards in
  \<open>parse_elements\<close> and \<open>parse_members\<close> never turn a text down.\<close>

lemma json_fraction_length: "json_fraction s = Some (fp, t) \<Longrightarrow> length t \<le> length s"
  using length_dropWhile_le [of is_digit "tl s"]
  by (auto simp: json_fraction_def Let_def split: list.splits if_splits)

lemma json_exponent_length: "json_exponent s = Some (e, t) \<Longrightarrow> length t \<le> length s"
  using length_dropWhile_le [of is_digit "tl s"] length_dropWhile_le [of is_digit "tl (tl s)"]
  by (auto simp: json_exponent_def Let_def split: list.splits if_splits prod.splits)

lemma json_sign_length: "json_sign s = (neg, t) \<Longrightarrow> length t \<le> length s"
  by (auto simp: json_sign_def split: list.splits if_splits)

lemma json_int_length: "json_int s = Some (ip, t) \<Longrightarrow> length t < length s"
  by (auto simp: json_int_def le_imp_less_Suc length_dropWhile_le split: list.splits if_splits)

lemma json_number_length:
  assumes "json_number s = Some (n, t)"
  shows "length t < length s"
proof -
  obtain neg s1 where a: "json_sign s = (neg, s1)"
    by (cases "json_sign s")
  from assms a obtain ip r1 where b: "json_int s1 = Some (ip, r1)"
    by (cases "json_int s1") (auto simp: json_number_def)
  from assms a b obtain fp r2 where c: "json_fraction r1 = Some (fp, r2)"
    by (cases "json_fraction r1") (auto simp: json_number_def)
  from assms a b c obtain e where d: "json_exponent r2 = Some (e, t)"
    by (cases "json_exponent r2") (auto simp: json_number_def Let_def)
  show ?thesis
    using json_sign_length [OF a] json_int_length [OF b] json_fraction_length [OF c]
      json_exponent_length [OF d]
    by simp
qed

lemma parse_lengths:
  "(parse_value s = Some (v, t) \<longrightarrow> length t < length s)"
  "(parse_elements s' = Some (vs, t') \<longrightarrow> length t' < length s')"
  "(parse_members acc s'' = Some (ms, t'') \<longrightarrow> length t'' < length s'')"
proof (induction s and s' and acc s'' arbitrary: v t and vs t' and ms t''
    rule: parse_value_parse_elements_parse_members.induct)
  case (1 s)
  show ?case
  proof
    assume a: "parse_value s = Some (v, t)"
    then obtain c r where s: "s = c # r"
      by (cases s) (auto simp: parse_value.simps)
    consider (obj) "c = 0x7B" | (arr) "c \<noteq> 0x7B" "c = 0x5B" | (strg) "c \<noteq> 0x7B" "c \<noteq> 0x5B" "c = 0x22"
      | (other) "c \<noteq> 0x7B" "c \<noteq> 0x5B" "c \<noteq> 0x22"
      by blast
    then show "length t < length s"
    proof cases
      case obj
      with a s obtain d u where sk: "skip_ws r = d # u"
        by (cases "skip_ws r") (auto simp: parse_value.simps)
      show ?thesis
      proof (cases "d = 0x7D")
        case True
        with a s obj sk have "t = u" by (simp add: parse_value.simps)
        with sk length_skip_ws [of r] s show ?thesis by simp
      next
        case False
        with a s obj sk obtain ms where "parse_members [] (skip_ws r) = Some (ms, t)"
          by (auto simp: parse_value.simps split: option.splits)
        with "1.IH"(1) [OF s obj sk False] have "length t < length (skip_ws r)" by simp
        with length_skip_ws [of r] s show ?thesis by simp
      qed
    next
      case arr
      with a s obtain d u where sk: "skip_ws r = d # u"
        by (cases "skip_ws r") (auto simp: parse_value.simps)
      show ?thesis
      proof (cases "d = 0x5D")
        case True
        with a s arr sk have "t = u" by (simp add: parse_value.simps)
        with sk length_skip_ws [of r] s show ?thesis by simp
      next
        case False
        with a s arr sk obtain vs where "parse_elements (skip_ws r) = Some (vs, t)"
          by (auto simp: parse_value.simps split: option.splits)
        with "1.IH"(2) [OF s arr sk False] have "length t < length (skip_ws r)" by simp
        with length_skip_ws [of r] s show ?thesis by simp
      qed
    next
      case strg
      with a s obtain x where "json_chars r = Some (x, t)"
        by (auto simp: parse_value.simps split: option.splits)
      from json_chars_length [OF this] s show ?thesis by simp
    next
      case other
      with a s have "(t = drop 4 s \<or> t = drop 5 s) \<or> (\<exists>n. json_number s = Some (n, t))"
        by (auto simp: parse_value.simps split: option.splits if_splits)
      then show ?thesis
        using s by (auto dest: json_number_length)
    qed
  qed
next
  case (2 s)
  show ?case
  proof
    assume a: "parse_elements s = Some (vs, t')"
    then obtain v t where pv: "parse_value s = Some (v, t)"
      by (auto simp: parse_elements.simps split: option.splits)
    with "2.IH"(1) have lt: "length t < length s" by simp
    from a pv obtain c u where sk: "skip_ws t = c # u"
      by (cases "skip_ws t") (auto simp: parse_elements.simps)
    have lu: "length u < length s"
      using sk length_skip_ws [of t] lt by simp
    show "length t' < length s"
    proof (cases "c = 0x2C")
      case True
      with a pv sk lu obtain ws where "parse_elements (skip_ws u) = Some (ws, t')"
        by (auto simp: parse_elements.simps split: option.splits)
      with "2.IH"(2) [OF pv refl sk True lu] have "length t' < length (skip_ws u)"
        by simp
      with length_skip_ws [of u] lu show ?thesis by simp
    next
      case False
      with a pv sk have "t' = u"
        by (auto simp: parse_elements.simps split: if_splits)
      with lu show ?thesis by simp
    qed
  qed
next
  case (3 acc s)
  show ?case
  proof
    assume a: "parse_members acc s = Some (ms, t'')"
    then obtain q r where s: "s = q # r"
      by (cases s) (auto simp: parse_members.simps)
    with a have q: "q = 0x22"
      by (auto simp: parse_members.simps split: if_splits)
    with a s obtain k t where jc: "json_chars r = Some (k, t)"
      by (auto simp: parse_members.simps split: option.splits)
    with a s q obtain c u where sk: "skip_ws t = c # u"
      by (cases "skip_ws t") (auto simp: parse_members.simps)
    with a s q jc have c: "c = 0x3A"
      by (auto simp: parse_members.simps split: if_splits)
    with a s q jc sk obtain v w where pv: "parse_value (skip_ws u) = Some (v, w)"
      by (auto simp: parse_members.simps split: option.splits)
    with a s q jc sk c obtain d x where sw: "skip_ws w = d # x"
      by (cases "skip_ws w") (auto simp: parse_members.simps)
    from "3.IH"(1) [OF s q jc refl sk c] pv have "length w < length (skip_ws u)"
      by simp
    with length_skip_ws [of u] sk length_skip_ws [of t] json_chars_length [OF jc] s
    have lw: "length w < length s" by simp
    with sw length_skip_ws [of w] have lx: "length x < length s" by simp
    show "length t'' < length s"
    proof (cases "d = 0x2C")
      case True
      with a s q jc sk c pv sw lx
      have "parse_members (obj_put acc k v) (skip_ws x) = Some (ms, t'')"
        by (simp add: parse_members.simps)
      with "3.IH"(2) [OF s q jc refl sk c pv refl sw True lx]
      have "length t'' < length (skip_ws x)" by simp
      with length_skip_ws [of x] lx show ?thesis by simp
    next
      case False
      with a s q jc sk c pv sw have "t'' = x"
        by (auto simp: parse_members.simps split: if_splits)
      with lx show ?thesis by simp
    qed
  qed
qed


lemma extractJson_string:
  "extractJson (JStr s) =
     Inr (case regex_match s of
            None \<Rightarrow> JNull
          | Some (m1, m2) \<Rightarrow> (case JSON_parse (js_or m1 m2) of Inl e \<Rightarrow> JNull | Inr v \<Rightarrow> v))"
  by (simp add: extractJson_def split: option.splits sum.splits)

text \<open>
  Claim C10. \<open>extractJson\<close> is total on strings and never throws: for every string it
  returns a value, which is \<open>null\<close> or the value that \<open>JSON.parse\<close> made of the candidate;
  a candidate that fails to parse is caught and gives \<open>null\<close>.
\<close>

theorem extractJson_total:
  "\<exists>v. extractJson (JStr s) = Inr v \<and>
       (v = JNull \<or> (\<exists>m1 m2. regex_match s = Some (m1, m2) \<and> JSON_parse (js_or m1 m2) = Inr v))"
  by (auto simp: extractJson_string split: option.splits sum.splits)


text \<open>
  On that path the console holds the exception of \<open>JSON.parse\<close>, logged by
  \<open>extractJson\<close>, and then the error that the \<open>catch\<close> block of \<open>analyzeImage\<close> logs.
\<close>

lemma analyzeImage_parse_failure_console:
  assumes "regex_match s = Some (m1, m2)" and "JSON_parse (js_or m1 m2) = Inl e"
    and "key \<noteq> str ''__API_KEY__''" and "ok r" and "json r = Inr data"
    and "completion_content data = Inr (JStr s)"
  shows "console_errors (analyzeImage key img (Resolved r) st) =
           console_errors st @ [e, Error (str ''Failed to parse JSON from AI response.'')]"
proof -
  from assms(1,2) have "extractJson (JStr s) = Inr JNull" "extractJson_console (JStr s) = [e]"
    by (simp_all add: extractJson_def extractJson_console_def)
  with assms(3-) show ?thesis
    by (simp add: analyzeImage_def Let_def try_block_def catch_block_def resetToInitialView_traces)
qed






section \<open>Properties of the renderer\<close>

text \<open>Whatever \<open>displayResults\<close> throws while it builds its markup is a \<open>TypeError\<close>.\<close>

lemma ToString_error_aux:
  "(\<forall>e. ToString v = Inl e \<longrightarrow> e = TypeError)"
  "(\<forall>e. ToString_elements vs = Inl e \<longrightarrow> e = TypeError)"
  by (induction v and vs rule: ToString_ToString_elements.induct)
    (auto split: sum.splits if_splits)

lemma ToString_error:
  "ToString v = Inl e \<Longrightarrow> e = TypeError"
  "ToString_elements vs = Inl e \<Longrightarrow> e = TypeError"
  using ToString_error_aux by blast+

lemma Get_error: "Get v k = Inl e \<Longrightarrow> e = TypeError"
  by (auto simp: Get_def split: js.splits)

lemma Get_nullish: "nullish v \<Longrightarrow> Get v k = Inl TypeError"
  by (auto simp: Get_def nullish_def)

lemma Get_not_nullish: "\<not> nullish v \<Longrightarrow> \<exists>x. Get v k = Inr x"
  by (cases v) (auto simp: Get_def nullish_def)

lemma ToNumber_error: "ToNumber v = Inl e \<Longrightarrow> e = TypeError"
  by (cases v) (auto simp: ToNumber_def bindE_Inl_iff simp del: ToString.simps dest: ToString_error)

lemma item_li_error: "item_li x = Inl e \<Longrightarrow> e = TypeError"
  by (auto simp: item_li_def bindE_Inl_iff dest: ToString_error ToNumber_error Get_error)

lemma map_items_error: "map_items xs = Inl e \<Longrightarrow> e = TypeError"
  by (induction xs arbitrary: e) (auto simp: bindE_Inl_iff dest: item_li_error)

lemma items_list_error: "items_list v = Inl e \<Longrightarrow> e = TypeError"
  by (auto simp: items_list_def greater_than_zero_def bindE_Inl_iff
      dest: map_items_error ToNumber_error Get_error split: if_splits js.splits)

lemma call_toLowerCase_error: "call_toLowerCase v = Inl e \<Longrightarrow> e = TypeError"
  by (auto simp: call_toLowerCase_def split: js.splits)

lemma render_error: "render data = Inl e \<Longrightarrow> e = TypeError"
  unfolding render_def
  by (auto simp: bindE_Inl_iff
      dest: ToString_error ToNumber_error Get_error items_list_error call_toLowerCase_error)


lemma ToString_zero: "ToString (JNum (Fin 0)) = Inr (str ''0'')"
  by simp

text \<open>What a successful rendering says about each substitution of the template.\<close>

lemma render_total:
  assumes "render data = Inr html"
  shows "\<exists>ns tc n. Get data (str ''nutrition_summary'') = Inr ns \<and>
           Get ns (str ''total_calories'') = Inr tc \<and> ToNumber tc = Inr n \<and>
           ToString (js_or (JNum (Math_round n)) (JStr (str ''N/A''))) = Inr (total_calories_span html)"
  using assms unfolding render_def bindE_Inr_iff
  by clarsimp

lemma render_macros:
  assumes "render data = Inr html"
  shows "\<exists>ns mac p c f b. Get data (str ''nutrition_summary'') = Inr ns \<and>
           Get ns (str ''macronutrients'') = Inr mac \<and>
           Get mac (str ''protein_g'') = Inr p \<and>
           ToString (js_or p (JNum (Fin 0))) = Inr (protein_p html) \<and>
           Get mac (str ''carbs_g'') = Inr c \<and>
           ToString (js_or c (JNum (Fin 0))) = Inr (carbs_p html) \<and>
           Get mac (str ''fat_g'') = Inr f \<and>
           ToString (js_or f (JNum (Fin 0))) = Inr (fat_p html) \<and>
           Get mac (str ''fiber_g'') = Inr b \<and>
           ToString (js_or b (JNum (Fin 0))) = Inr (fiber_p html)"
  using assms unfolding render_def bindE_Inr_iff
  by clarsimp

lemma render_micros:
  assumes "render data = Inr html"
  shows "\<exists>ns mic s n. Get data (str ''nutrition_summary'') = Inr ns \<and>
           Get ns (str ''micronutrients'') = Inr mic \<and>
           Get mic (str ''sugar_g'') = Inr s \<and>
           ToString (js_coalesce s (JStr (str ''N/A''))) = Inr (sugar_li html) \<and>
           Get mic (str ''sodium_mg'') = Inr n \<and>
           ToString (js_coalesce n (JStr (str ''N/A''))) = Inr (sodium_li html)"
  using assms unfolding render_def bindE_Inr_iff
  by clarsimp

lemma render_texts:
  assumes "render data = Inr html"
  shows "\<exists>items cs ht. Get data (str ''items'') = Inr items \<and>
           Get data (str ''confidence_score'') = Inr cs \<and>
           Get data (str ''health_tips'') = Inr ht \<and>
           call_toLowerCase (js_or cs (JStr (str ''medium''))) = Inr (confidence_class html) \<and>
           ToString (js_or cs (JStr (str ''Medium''))) = Inr (confidence_pill html) \<and>
           items_list items = Inr (items_ul html) \<and>
           ToString (js_or ht (JStr (str ''Enjoy your meal mindfully!''))) = Inr (health_tips_p html)"
  using assms unfolding render_def bindE_Inr_iff
  by clarsimp

text \<open>
  In a markup that is rendered, a macronutrient whose value is the number 0, or that is
  absent, shows \<open>0\<close>.
\<close>

lemma render_macros_zero:
  assumes "render data = Inr html"
    and "Get data (str ''nutrition_summary'') = Inr nutrition_summary"
    and "Get nutrition_summary (str ''macronutrients'') = Inr macronutrients"
  shows "(Get macronutrients (str ''protein_g'') = Inr (JNum (Fin 0)) \<or>
          Get macronutrients (str ''protein_g'') = Inr JUndefined \<longrightarrow> protein_p html = str ''0'') \<and>
         (Get macronutrients (str ''carbs_g'') = Inr (JNum (Fin 0)) \<or>
          Get macronutrients (str ''carbs_g'') = Inr JUndefined \<longrightarrow> carbs_p html = str ''0'') \<and>
         (Get macronutrients (str ''fat_g'') = Inr (JNum (Fin 0)) \<or>
          Get macronutrients (str ''fat_g'') = Inr JUndefined \<longrightarrow> fat_p html = str ''0'') \<and>
         (Get macronutrients (str ''fiber_g'') = Inr (JNum (Fin 0)) \<or>
          Get macronutrients (str ''fiber_g'') = Inr JUndefined \<longrightarrow> fiber_p html = str ''0'')"
  using render_macros [OF assms(1)] assms(2,3)
  by (auto simp: js_or_def)

text \<open>
  In a markup that is rendered, a micronutrient shows its value as given, and \<open>N/A\<close>
  exactly when the value is \<open>undefined\<close> or \<open>null\<close>.
\<close>

lemma render_micros_coalesce:
  assumes "render data = Inr html"
    and "Get data (str ''nutrition_summary'') = Inr nutrition_summary"
    and "Get nutrition_summary (str ''micronutrients'') = Inr micronutrients"
    and "Get micronutrients (str ''sugar_g'') = Inr sugar_g"
    and "Get micronutrients (str ''sodium_mg'') = Inr sodium_mg"
  shows "Inr (sugar_li html) = (if nullish sugar_g then Inr (str ''N/A'') else ToString sugar_g) \<and>
         Inr (sodium_li html) = (if nullish sodium_mg then Inr (str ''N/A'') else ToString sodium_mg) \<and>
         (sugar_g = JNum (Fin 0) \<longrightarrow> sugar_li html = str ''0'') \<and>
         (sodium_mg = JNum (Fin 0) \<longrightarrow> sodium_li html = str ''0'') \<and>
         (sodium_mg = JUndefined \<longrightarrow> sodium_li html = str ''N/A'')"
  using render_micros [OF assms(1)] assms(2-)
  by (auto simp: js_coalesce_def nullish_def)

text \<open>
  Claim C2, as amended. In the markup rendered for a result object, the total-calories
  field is built from \<open>Math.round(total_calories) || 'N/A'\<close>: a number shows its rounded
  value when that is not zero and \<open>N/A\<close> when it rounds to zero (0 itself included); an
  absent value shows \<open>N/A\<close>; any other value is first converted to a number and then
  treated in the same way.
\<close>

theorem total_calories_field:
  assumes "render data = Inr html"
    and "Get data (str ''nutrition_summary'') = Inr nutrition_summary"
    and "Get nutrition_summary (str ''total_calories'') = Inr total_calories"
  shows "(\<forall>x. total_calories = JNum (Fin x) \<longrightarrow>
            total_calories_span html =
              (if \<lfloor>x + 1 / 2\<rfloor> = 0 then str ''N/A''
               else Number_toString (Fin (of_int \<lfloor>x + 1 / 2\<rfloor>)))) \<and>
         (total_calories = JUndefined \<longrightarrow> total_calories_span html = str ''N/A'') \<and>
         (\<exists>n. ToNumber total_calories = Inr n \<and>
              total_calories_span html =
                (if Math_round n = NaN \<or> Math_round n = Fin 0 then str ''N/A''
                 else Number_toString (Math_round n)))"
  using render_total [OF assms(1)] assms(2,3)
  by (auto simp: js_or_def ToNumber_def simp del: Number_toString.simps)

text \<open>
  The shape of a result object for claim C3: the value of a property of an object
  (\<open>undefined\<close> when it is missing), and fields that are absent or of the type that the
  prompt asks for.
\<close>

definition field :: "(jstring \<times> js) list \<Rightarrow> jstring \<Rightarrow> js" where
  "field ps k = (case map_of ps k of Some x \<Rightarrow> x | None \<Rightarrow> JUndefined)"

definition absent_or_number :: "js \<Rightarrow> bool" where
  "absent_or_number v = (case v of JUndefined \<Rightarrow> True | JNum n \<Rightarrow> True | _ \<Rightarrow> False)"

definition absent_or_string :: "js \<Rightarrow> bool" where
  "absent_or_string v = (case v of JUndefined \<Rightarrow> True | JStr s \<Rightarrow> True | _ \<Rightarrow> False)"

definition item_shaped :: "js \<Rightarrow> bool" where
  "item_shaped x =
     (case x of
        JObj ps \<Rightarrow> absent_or_string (field ps (str ''item'')) \<and>
                   absent_or_number (field ps (str ''calories''))
      | _ \<Rightarrow> False)"

definition absent_or_items :: "js \<Rightarrow> bool" where
  "absent_or_items v =
     (case v of JUndefined \<Rightarrow> True | JArr xs \<Rightarrow> list_all item_shaped xs | _ \<Rightarrow> False)"

lemma Get_JObj: "Get (JObj ps) k = Inr (field ps k)"
  by (simp add: Get_def field_def)

lemma ToString_leaf:
  "absent_or_number v \<or> absent_or_string v \<Longrightarrow> \<exists>s. ToString v = Inr s"
  by (cases v) (auto simp: absent_or_number_def absent_or_string_def)

lemma ToString_js_or_leaf:
  assumes "absent_or_number v \<or> absent_or_string v" and "absent_or_number d \<or> absent_or_string d"
  shows "\<exists>s. ToString (js_or v d) = Inr s"
  using ToString_leaf [OF assms(1)] ToString_leaf [OF assms(2)] by (simp add: js_or_def)

lemma ToString_js_coalesce_leaf:
  assumes "absent_or_number v \<or> absent_or_string v" and "absent_or_number d \<or> absent_or_string d"
  shows "\<exists>s. ToString (js_coalesce v d) = Inr s"
  using ToString_leaf [OF assms(1)] ToString_leaf [OF assms(2)] by (simp add: js_coalesce_def)

lemma ToString_js_coalesce_null:
  assumes "absent_or_number v \<or> v = JNull"
  shows "\<exists>s. ToString (js_coalesce v (JStr d)) = Inr s"
  using assms by (cases v) (auto simp: absent_or_number_def js_coalesce_def nullish_def)

lemma ToNumber_leaf: "absent_or_number v \<or> absent_or_string v \<Longrightarrow> \<exists>n. ToNumber v = Inr n"
  by (cases v) (auto simp: absent_or_number_def absent_or_string_def ToNumber_def)

lemma item_li_shaped: "item_shaped x \<Longrightarrow> \<exists>li. item_li x = Inr li"
proof -
  assume a: "item_shaped x"
  then obtain ps where x: "x = JObj ps" and i: "absent_or_string (field ps (str ''item''))"
    and c: "absent_or_number (field ps (str ''calories''))"
    by (cases x) (auto simp: item_shaped_def)
  from ToString_leaf [of "field ps (str ''item'')"] i obtain s
    where s: "ToString (field ps (str ''item'')) = Inr s" by blast
  from ToNumber_leaf [of "field ps (str ''calories'')"] c obtain n
    where n: "ToNumber (field ps (str ''calories'')) = Inr n" by blast
  show ?thesis
    by (simp add: item_li_def x s n Get_JObj)
qed

lemma map_items_shaped: "list_all item_shaped xs \<Longrightarrow> \<exists>lis. map_items xs = Inr lis"
proof (induction xs)
  case Nil
  show ?case by simp
next
  case (Cons x xs)
  then obtain li lis where "item_li x = Inr li" "map_items xs = Inr lis"
    using item_li_shaped [of x] by auto
  then show ?case by simp
qed

lemma items_list_shaped:
  assumes "absent_or_items v"
  shows "\<exists>s. items_list v = Inr s \<and>
             (v = JUndefined \<or> v = JArr [] \<longrightarrow> s = str ''<li>No specific items identified.</li>'')"
proof (cases v)
  case (JArr xs)
  with assms have "list_all item_shaped xs"
    by (simp add: absent_or_items_def)
  from map_items_shaped [OF this] obtain lis where "map_items xs = Inr lis" ..
  with JArr show ?thesis
    by (cases xs) (simp_all add: items_list_def Get_def str_def greater_than_zero_def ToNumber_def)
qed (use assms in \<open>simp_all add: absent_or_items_def items_list_def\<close>)

lemma js_or_JUndefined [simp]: "js_or JUndefined d = d"
  by (simp add: js_or_def)

lemma js_coalesce_JUndefined [simp]: "js_coalesce JUndefined d = d"
  by (simp add: js_coalesce_def nullish_def)

lemma render_with_containers:
  assumes ns: "field ps (str ''nutrition_summary'') = JObj ns"
    and mac: "field ns (str ''macronutrients'') = JObj mac"
    and mic: "field ns (str ''micronutrients'') = JObj mic"
    and tc: "absent_or_number (field ns (str ''total_calories''))"
    and cs: "absent_or_string (field ps (str ''confidence_score''))"
    and ht: "absent_or_string (field ps (str ''health_tips''))"
    and items: "absent_or_items (field ps (str ''items''))"
    and macros: "absent_or_number (field mac (str ''protein_g''))"
      "absent_or_number (field mac (str ''carbs_g''))"
      "absent_or_number (field mac (str ''fat_g''))"
      "absent_or_number (field mac (str ''fiber_g''))"
    and micros: "absent_or_number (field mic (str ''sugar_g'')) \<or> field mic (str ''sugar_g'') = JNull"
      "absent_or_number (field mic (str ''sodium_mg'')) \<or> field mic (str ''sodium_mg'') = JNull"
  shows "(\<exists>html. render (JObj ps) = Inr html \<and>
           (field ns (str ''total_calories'') = JUndefined \<longrightarrow> total_calories_span html = str ''N/A'') \<and>
           (field ps (str ''confidence_score'') = JUndefined \<longrightarrow>
              confidence_pill html = str ''Medium'' \<and>
              confidence_class html = ToLowerCase (str ''medium'')) \<and>
           (field mac (str ''protein_g'') = JUndefined \<longrightarrow> protein_p html = str ''0'') \<and>
           (field mac (str ''carbs_g'') = JUndefined \<longrightarrow> carbs_p html = str ''0'') \<and>
           (field mac (str ''fat_g'') = JUndefined \<longrightarrow> fat_p html = str ''0'') \<and>
           (field mac (str ''fiber_g'') = JUndefined \<longrightarrow> fiber_p html = str ''0'') \<and>
           (field ps (str ''items'') = JUndefined \<or> field ps (str ''items'') = JArr [] \<longrightarrow>
              items_ul html = str ''<li>No specific items identified.</li>'') \<and>
           (field mic (str ''sugar_g'') = JUndefined \<longrightarrow> sugar_li html = str ''N/A'') \<and>
           (field mic (str ''sodium_mg'') = JUndefined \<longrightarrow> sodium_li html = str ''N/A'') \<and>
           (field ps (str ''health_tips'') = JUndefined \<longrightarrow>
              health_tips_p html = str ''Enjoy your meal mindfully!''))"
proof -
  let ?na = "JStr (str ''N/A'')" and ?zero = "JNum (Fin 0)"
  have d: "absent_or_number ?zero" "absent_or_string ?na" "absent_or_string (JStr s)" for s
    by (simp_all add: absent_or_number_def absent_or_string_def)
  from ToNumber_leaf tc obtain n where n: "ToNumber (field ns (str ''total_calories'')) = Inr n"
    by blast
  have "absent_or_number (JNum (Math_round n))"
    by (simp add: absent_or_number_def)
  from ToString_js_or_leaf [of "JNum (Math_round n)" ?na] this d obtain h1
    where h1: "ToString (js_or (JNum (Math_round n)) ?na) = Inr h1" by blast
  have "\<exists>lc. call_toLowerCase (js_or (field ps (str ''confidence_score'')) (JStr (str ''medium''))) = Inr lc \<and>
      (field ps (str ''confidence_score'') = JUndefined \<longrightarrow> lc = ToLowerCase (str ''medium''))"
    using cs
    by (cases "field ps (str ''confidence_score'')")
      (simp_all add: absent_or_string_def call_toLowerCase_def js_or_def)
  then obtain lc where lc: "call_toLowerCase (js_or (field ps (str ''confidence_score'')) (JStr (str ''medium''))) = Inr lc"
      "field ps (str ''confidence_score'') = JUndefined \<longrightarrow> lc = ToLowerCase (str ''medium'')"
    by blast
  from ToString_js_or_leaf [of "field ps (str ''confidence_score'')" "JStr (str ''Medium'')"] cs d
  obtain h3 where h3: "ToString (js_or (field ps (str ''confidence_score'')) (JStr (str ''Medium''))) = Inr h3"
    by blast
  from ToString_js_or_leaf [of "field mac (str ''protein_g'')" ?zero] macros d
  obtain h4 where h4: "ToString (js_or (field mac (str ''protein_g'')) ?zero) = Inr h4" by blast
  from ToString_js_or_leaf [of "field mac (str ''carbs_g'')" ?zero] macros d
  obtain h5 where h5: "ToString (js_or (field mac (str ''carbs_g'')) ?zero) = Inr h5" by blast
  from ToString_js_or_leaf [of "field mac (str ''fat_g'')" ?zero] macros d
  obtain h6 where h6: "ToString (js_or (field mac (str ''fat_g'')) ?zero) = Inr h6" by blast
  from ToString_js_or_leaf [of "field mac (str ''fiber_g'')" ?zero] macros d
  obtain h7 where h7: "ToString (js_or (field mac (str ''fiber_g'')) ?zero) = Inr h7" by blast
  from items_list_shaped [OF items] obtain h8
    where h8: "items_list (field ps (str ''items'')) = Inr h8"
      "field ps (str ''items'') = JUndefined \<or> field ps (str ''items'') = JArr [] \<longrightarrow>
         h8 = str ''<li>No specific items identified.</li>''"
    by blast
  from ToString_js_coalesce_null [OF micros(1)]
  obtain h9 where h9: "ToString (js_coalesce (field mic (str ''sugar_g'')) ?na) = Inr h9" by blast
  from ToString_js_coalesce_null [OF micros(2)]
  obtain h10 where h10: "ToString (js_coalesce (field mic (str ''sodium_mg'')) ?na) = Inr h10" by blast
  from ToString_js_or_leaf [of "field ps (str ''health_tips'')" "JStr (str ''Enjoy your meal mindfully!'')"] ht d
  obtain h11 where h11: "ToString (js_or (field ps (str ''health_tips'')) (JStr (str ''Enjoy your meal mindfully!''))) = Inr h11"
    by blast
  have r: "render (JObj ps) =
      Inr \<lparr>total_calories_span = h1, confidence_class = lc, confidence_pill = h3,
           protein_p = h4, carbs_p = h5, fat_p = h6, fiber_p = h7, items_ul = h8,
           sugar_li = h9, sodium_li = h10, health_tips_p = h11\<rparr>"
    unfolding render_def
    by (simp only: Get_JObj bindE_simps ns mac mic n h1 lc(1) h3 h4 h5 h6 h7 h8(1) h9 h10 h11)
  have f1: "field ns (str ''total_calories'') = JUndefined \<longrightarrow> h1 = str ''N/A''"
    using n h1 by (auto simp: ToNumber_def js_or_def)
  have f3: "field ps (str ''confidence_score'') = JUndefined \<longrightarrow> h3 = str ''Medium''"
    using h3 by auto
  have f4: "field mac (str ''protein_g'') = JUndefined \<longrightarrow> h4 = str ''0''"
    using h4 by auto
  have f5: "field mac (str ''carbs_g'') = JUndefined \<longrightarrow> h5 = str ''0''"
    using h5 by auto
  have f6: "field mac (str ''fat_g'') = JUndefined \<longrightarrow> h6 = str ''0''"
    using h6 by auto
  have f7: "field mac (str ''fiber_g'') = JUndefined \<longrightarrow> h7 = str ''0''"
    using h7 by auto
  have f9: "field mic (str ''sugar_g'') = JUndefined \<longrightarrow> h9 = str ''N/A''"
    using h9 by auto
  have f10: "field mic (str ''sodium_mg'') = JUndefined \<longrightarrow> h10 = str ''N/A''"
    using h10 by auto
  have f11: "field ps (str ''health_tips'') = JUndefined \<longrightarrow> h11 = str ''Enjoy your meal mindfully!''"
    using h11 by auto
  show ?thesis
    using r f1 f3 lc(2) f4 f5 f6 f7 h8(2) f9 f10 f11 by simp
qed

lemma render_needs_containers:
  assumes "render data = Inr html"
  shows "\<exists>ns mac mic. Get data (str ''nutrition_summary'') = Inr ns \<and> \<not> nullish ns \<and>
           Get ns (str ''macronutrients'') = Inr mac \<and> \<not> nullish mac \<and>
           Get ns (str ''micronutrients'') = Inr mic \<and> \<not> nullish mic"
proof -
  from render_macros [OF assms] obtain ns mac p
    where a: "Get data (str ''nutrition_summary'') = Inr ns" "Get ns (str ''macronutrients'') = Inr mac"
      "Get mac (str ''protein_g'') = Inr p"
    by blast
  from render_micros [OF assms] a obtain mic s
    where b: "Get ns (str ''micronutrients'') = Inr mic" "Get mic (str ''sugar_g'') = Inr s"
    by auto
  from a b have "\<not> nullish ns" "\<not> nullish mac" "\<not> nullish mic"
    using Get_nullish by fastforce+
  with a b show ?thesis by blast
qed

lemma render_without_container:
  assumes "Get data (str ''nutrition_summary'') = Inr ns"
    and "nullish ns \<or> (\<exists>mac. Get ns (str ''macronutrients'') = Inr mac \<and> nullish mac)
         \<or> (\<exists>mic. Get ns (str ''micronutrients'') = Inr mic \<and> nullish mic)"
  shows "render data = Inl TypeError"
proof (cases "render data")
  case (Inl e)
  with render_error show ?thesis by blast
next
  case (Inr html)
  from render_needs_containers [OF this] assms show ?thesis by auto
qed

definition zero_macros :: "(jstring \<times> js) list" where
  "zero_macros = [(str ''protein_g'', JNum (Fin 0))]"

definition zero_micros :: "(jstring \<times> js) list" where
  "zero_micros = [(str ''sugar_g'', JNum (Fin 0))]"

definition zero_summary :: "(jstring \<times> js) list" where
  "zero_summary =
     [(str ''total_calories'', JNum (Fin 0)), (str ''macronutrients'', JObj zero_macros),
      (str ''micronutrients'', JObj zero_micros)]"

definition zero_meal :: js where
  "zero_meal = JObj [(str ''nutrition_summary'', JObj zero_summary)]"

definition zero_meal_html :: results_html where
  "zero_meal_html =
     \<lparr>total_calories_span = str ''N/A'', confidence_class = ToLowerCase (str ''medium''),
      confidence_pill = str ''Medium'', protein_p = str ''0'', carbs_p = str ''0'',
      fat_p = str ''0'', fiber_p = str ''0'',
      items_ul = str ''<li>No specific items identified.</li>'',
      sugar_li = str ''0'', sodium_li = str ''N/A'',
      health_tips_p = str ''Enjoy your meal mindfully!''\<rparr>"

lemma render_zero_meal: "render zero_meal = Inr zero_meal_html"
  by code_simp

lemma zero_meal_fields:
  "Get zero_meal (str ''nutrition_summary'') = Inr (JObj zero_summary)"
  "Get (JObj zero_summary) (str ''total_calories'') = Inr (JNum (Fin 0))"
  "Get (JObj zero_summary) (str ''macronutrients'') = Inr (JObj zero_macros)"
  "Get (JObj zero_summary) (str ''micronutrients'') = Inr (JObj zero_micros)"
  "Get (JObj zero_macros) (str ''protein_g'') = Inr (JNum (Fin 0))"
  "Get (JObj zero_macros) (str ''carbs_g'') = Inr JUndefined"
  "Get (JObj zero_micros) (str ''sugar_g'') = Inr (JNum (Fin 0))"
  "Get (JObj zero_micros) (str ''sodium_mg'') = Inr JUndefined"
  by (simp_all add: zero_meal_def zero_summary_def zero_macros_def zero_micros_def Get_JObj
      field_def str_def)


lemma floor_half: "\<lfloor>(1 / 2 :: rat)\<rfloor> = 0"
  by (simp add: floor_eq_iff)

lemma floor_three_halves: "\<lfloor>(3 / 2 :: rat)\<rfloor> = 1"
  by (simp add: floor_eq_iff)

text \<open>
  Claim C3, as amended. For a result object that has \<open>nutrition_summary\<close>,
  \<open>macronutrients\<close> and \<open>micronutrients\<close> as objects and whose other fields are each
  absent or of the documented type, rendering succeeds, and every absent field shows
  its documented fallback. When \<open>nutrition_summary\<close>, \<open>macronutrients\<close> or
  \<open>micronutrients\<close> is absent (or \<open>null\<close>), \<open>displayResults\<close> renders nothing and throws a
  \<open>TypeError\<close>.
\<close>

theorem render_fallbacks_need_containers:
  "(field ps (str ''nutrition_summary'') = JObj ns \<and>
    field ns (str ''macronutrients'') = JObj mac \<and>
    field ns (str ''micronutrients'') = JObj mic \<and>
    absent_or_number (field ns (str ''total_calories'')) \<and>
    absent_or_string (field ps (str ''confidence_score'')) \<and>
    absent_or_string (field ps (str ''health_tips'')) \<and>
    absent_or_items (field ps (str ''items'')) \<and>
    absent_or_number (field mac (str ''protein_g'')) \<and>
    absent_or_number (field mac (str ''carbs_g'')) \<and>
    absent_or_number (field mac (str ''fat_g'')) \<and>
    absent_or_number (field mac (str ''fiber_g'')) \<and>
    absent_or_number (field mic (str ''sugar_g'')) \<and>
    absent_or_number (field mic (str ''sodium_mg'')) \<longrightarrow>
    (\<exists>html. render (JObj ps) = Inr html \<and>
       (field ns (str ''total_calories'') = JUndefined \<longrightarrow> total_calories_span html = str ''N/A'') \<and>
       (field ps (str ''confidence_score'') = JUndefined \<longrightarrow>
          confidence_pill html = str ''Medium'' \<and>
          confidence_class html = ToLowerCase (str ''medium'')) \<and>
       (field mac (str ''protein_g'') = JUndefined \<longrightarrow> protein_p html = str ''0'') \<and>
       (field mac (str ''carbs_g'') = JUndefined \<longrightarrow> carbs_p html = str ''0'') \<and>
       (field mac (str ''fat_g'') = JUndefined \<longrightarrow> fat_p html = str ''0'') \<and>
       (field mac (str ''fiber_g'') = JUndefined \<longrightarrow> fiber_p html = str ''0'') \<and>
       (field ps (str ''items'') = JUndefined \<or> field ps (str ''items'') = JArr [] \<longrightarrow>
          items_ul html = str ''<li>No specific items identified.</li>'') \<and>
       (field mic (str ''sugar_g'') = JUndefined \<longrightarrow> sugar_li html = str ''N/A'') \<and>
       (field mic (str ''sodium_mg'') = JUndefined \<longrightarrow> sodium_li html = str ''N/A'') \<and>
       (field ps (str ''health_tips'') = JUndefined \<longrightarrow>
          health_tips_p html = str ''Enjoy your meal mindfully!''))) \<and>
   (Get data (str ''nutrition_summary'') = Inr summary \<and>
    (nullish summary \<or>
     (\<exists>m. Get summary (str ''macronutrients'') = Inr m \<and> nullish m) \<or>
     (\<exists>m. Get summary (str ''micronutrients'') = Inr m \<and> nullish m)) \<longrightarrow>
    render data = Inl TypeError)"
  using render_with_containers [of ps ns mac mic] render_without_container [of data summary]
  by blast

theorem render_fallbacks_need_containers_witness:
  "field [(str ''nutrition_summary'', JObj zero_summary)] (str ''nutrition_summary'') = JObj zero_summary \<and>
   field zero_summary (str ''macronutrients'') = JObj zero_macros \<and>
   field zero_summary (str ''micronutrients'') = JObj zero_micros \<and>
   field zero_micros (str ''sodium_mg'') = JUndefined \<and>
   (\<exists>html. render zero_meal = Inr html \<and> sodium_li html = str ''N/A'' \<and>
      carbs_p html = str ''0'' \<and> confidence_pill html = str ''Medium'' \<and>
      items_ul html = str ''<li>No specific items identified.</li>'' \<and>
      health_tips_p html = str ''Enjoy your meal mindfully!'') \<and>
   Get (JObj []) (str ''nutrition_summary'') = Inr JUndefined \<and>
   render (JObj []) = Inl TypeError"
proof -
  have f: "field [(str ''nutrition_summary'', JObj zero_summary)] (str ''nutrition_summary'') = JObj zero_summary"
    "field zero_summary (str ''macronutrients'') = JObj zero_macros"
    "field zero_summary (str ''micronutrients'') = JObj zero_micros"
    "field zero_summary (str ''total_calories'') = JNum (Fin 0)"
    "field [(str ''nutrition_summary'', JObj zero_summary)] (str ''confidence_score'') = JUndefined"
    "field [(str ''nutrition_summary'', JObj zero_summary)] (str ''health_tips'') = JUndefined"
    "field [(str ''nutrition_summary'', JObj zero_summary)] (str ''items'') = JUndefined"
    "field zero_macros (str ''protein_g'') = JNum (Fin 0)"
    "field zero_macros (str ''carbs_g'') = JUndefined"
    "field zero_macros (str ''fat_g'') = JUndefined"
    "field zero_macros (str ''fiber_g'') = JUndefined"
    "field zero_micros (str ''sugar_g'') = JNum (Fin 0)"
    "field zero_micros (str ''sodium_mg'') = JUndefined"
    by (simp_all add: zero_summary_def zero_macros_def zero_micros_def field_def str_def)
  have g: "Get (JObj []) (str ''nutrition_summary'') = Inr JUndefined"
    by (simp add: Get_def)
  note t = render_fallbacks_need_containers
    [of "[(str ''nutrition_summary'', JObj zero_summary)]" zero_summary zero_macros zero_micros
      "JObj []" JUndefined]
  from t f have "\<exists>html. render zero_meal = Inr html \<and> sodium_li html = str ''N/A'' \<and>
      carbs_p html = str ''0'' \<and> confidence_pill html = str ''Medium'' \<and>
      items_ul html = str ''<li>No specific items identified.</li>'' \<and>
      health_tips_p html = str ''Enjoy your meal mindfully!''"
    by (simp add: zero_meal_def absent_or_number_def absent_or_string_def absent_or_items_def) blast
  moreover from t g have "render (JObj []) = Inl TypeError"
    by (simp add: nullish_def)
  ultimately show ?thesis
    using f g by blast
qed

text \<open>
  The shape of a result object that \<open>displayResults\<close> renders: \<open>nutrition_summary\<close>,
  \<open>macronutrients\<close> and \<open>micronutrients\<close> are objects, and every other field is absent
  or of the documented type; a micronutrient may also be \<open>null\<close>.
\<close>

definition result_shape ::
  "(jstring \<times> js) list \<Rightarrow> (jstring \<times> js) list \<Rightarrow> (jstring \<times> js) list \<Rightarrow> (jstring \<times> js) list \<Rightarrow> bool"
  where
  "result_shape ps ns mac mic \<longleftrightarrow>
     field ps (str ''nutrition_summary'') = JObj ns \<and>
     field ns (str ''macronutrients'') = JObj mac \<and>
     field ns (str ''micronutrients'') = JObj mic \<and>
     absent_or_number (field ns (str ''total_calories'')) \<and>
     absent_or_string (field ps (str ''confidence_score'')) \<and>
     absent_or_string (field ps (str ''health_tips'')) \<and>
     absent_or_items (field ps (str ''items'')) \<and>
     absent_or_number (field mac (str ''protein_g'')) \<and>
     absent_or_number (field mac (str ''carbs_g'')) \<and>
     absent_or_number (field mac (str ''fat_g'')) \<and>
     absent_or_number (field mac (str ''fiber_g'')) \<and>
     (absent_or_number (field mic (str ''sugar_g'')) \<or> field mic (str ''sugar_g'') = JNull) \<and>
     (absent_or_number (field mic (str ''sodium_mg'')) \<or> field mic (str ''sodium_mg'') = JNull)"

lemma render_result_shape:
  assumes "result_shape ps ns mac mic"
  shows "\<exists>html. render (JObj ps) = Inr html"
  using assms render_with_containers [of ps ns mac mic] unfolding result_shape_def by blast

lemma zero_meal_shape:
  "result_shape [(str ''nutrition_summary'', JObj zero_summary)] zero_summary zero_macros zero_micros"
  by (simp add: result_shape_def zero_summary_def zero_macros_def zero_micros_def field_def str_def
      absent_or_number_def absent_or_string_def absent_or_items_def)

text \<open>
  Claim C6, as amended. In every markup that \<open>displayResults\<close> renders, a macronutrient
  (\<open>protein_g\<close>, \<open>carbs_g\<close>, \<open>fat_g\<close>, \<open>fiber_g\<close>) whose value is the number 0 shows \<open>0\<close>
  (followed by the template's \<open>g\<close>), and so does one that is absent. A result object of
  the shape \<open>result_shape\<close> is rendered, with these values. When \<open>nutrition_summary\<close>,
  \<open>macronutrients\<close> or \<open>micronutrients\<close> is absent or \<open>null\<close>, nothing is rendered:
  \<open>displayResults\<close> throws a \<open>TypeError\<close>.
\<close>

theorem macronutrient_zero_renders_zero:
  "(render data = Inr html \<and>
    Get data (str ''nutrition_summary'') = Inr nutrition_summary \<and>
    Get nutrition_summary (str ''macronutrients'') = Inr macronutrients \<longrightarrow>
      (Get macronutrients (str ''protein_g'') = Inr (JNum (Fin 0)) \<or>
       Get macronutrients (str ''protein_g'') = Inr JUndefined \<longrightarrow> protein_p html = str ''0'') \<and>
      (Get macronutrients (str ''carbs_g'') = Inr (JNum (Fin 0)) \<or>
       Get macronutrients (str ''carbs_g'') = Inr JUndefined \<longrightarrow> carbs_p html = str ''0'') \<and>
      (Get macronutrients (str ''fat_g'') = Inr (JNum (Fin 0)) \<or>
       Get macronutrients (str ''fat_g'') = Inr JUndefined \<longrightarrow> fat_p html = str ''0'') \<and>
      (Get macronutrients (str ''fiber_g'') = Inr (JNum (Fin 0)) \<or>
       Get macronutrients (str ''fiber_g'') = Inr JUndefined \<longrightarrow> fiber_p html = str ''0'')) \<and>
   (result_shape ps ns mac mic \<longrightarrow>
      (\<exists>h. render (JObj ps) = Inr h \<and>
         (field mac (str ''protein_g'') = JNum (Fin 0) \<or>
          field mac (str ''protein_g'') = JUndefined \<longrightarrow> protein_p h = str ''0'') \<and>
         (field mac (str ''carbs_g'') = JNum (Fin 0) \<or>
          field mac (str ''carbs_g'') = JUndefined \<longrightarrow> carbs_p h = str ''0'') \<and>
         (field mac (str ''fat_g'') = JNum (Fin 0) \<or>
          field mac (str ''fat_g'') = JUndefined \<longrightarrow> fat_p h = str ''0'') \<and>
         (field mac (str ''fiber_g'') = JNum (Fin 0) \<or>
          field mac (str ''fiber_g'') = JUndefined \<longrightarrow> fiber_p h = str ''0''))) \<and>
   (Get obj (str ''nutrition_summary'') = Inr summary \<and>
    (nullish summary \<or>
     (\<exists>m. Get summary (str ''macronutrients'') = Inr m \<and> nullish m) \<or>
     (\<exists>m. Get summary (str ''micronutrients'') = Inr m \<and> nullish m)) \<longrightarrow>
      render obj = Inl TypeError)"
proof -
  have rendered: "render data = Inr html \<and>
    Get data (str ''nutrition_summary'') = Inr nutrition_summary \<and>
    Get nutrition_summary (str ''macronutrients'') = Inr macronutrients \<longrightarrow>
      (Get macronutrients (str ''protein_g'') = Inr (JNum (Fin 0)) \<or>
       Get macronutrients (str ''protein_g'') = Inr JUndefined \<longrightarrow> protein_p html = str ''0'') \<and>
      (Get macronutrients (str ''carbs_g'') = Inr (JNum (Fin 0)) \<or>
       Get macronutrients (str ''carbs_g'') = Inr JUndefined \<longrightarrow> carbs_p html = str ''0'') \<and>
      (Get macronutrients (str ''fat_g'') = Inr (JNum (Fin 0)) \<or>
       Get macronutrients (str ''fat_g'') = Inr JUndefined \<longrightarrow> fat_p html = str ''0'') \<and>
      (Get macronutrients (str ''fiber_g'') = Inr (JNum (Fin 0)) \<or>
       Get macronutrients (str ''fiber_g'') = Inr JUndefined \<longrightarrow> fiber_p html = str ''0'')"
    using render_macros_zero [of data html nutrition_summary macronutrients] by blast
  have shaped: "\<exists>h. render (JObj ps) = Inr h \<and>
         (field mac (str ''protein_g'') = JNum (Fin 0) \<or>
          field mac (str ''protein_g'') = JUndefined \<longrightarrow> protein_p h = str ''0'') \<and>
         (field mac (str ''carbs_g'') = JNum (Fin 0) \<or>
          field mac (str ''carbs_g'') = JUndefined \<longrightarrow> carbs_p h = str ''0'') \<and>
         (field mac (str ''fat_g'') = JNum (Fin 0) \<or>
          field mac (str ''fat_g'') = JUndefined \<longrightarrow> fat_p h = str ''0'') \<and>
         (field mac (str ''fiber_g'') = JNum (Fin 0) \<or>
          field mac (str ''fiber_g'') = JUndefined \<longrightarrow> fiber_p h = str ''0'')"
    if s: "result_shape ps ns mac mic"
  proof -
    from render_result_shape [OF s] obtain h where h: "render (JObj ps) = Inr h" ..
    from s have g: "Get (JObj ps) (str ''nutrition_summary'') = Inr (JObj ns)"
      "Get (JObj ns) (str ''macronutrients'') = Inr (JObj mac)"
      by (simp_all add: result_shape_def Get_JObj)
    from render_macros_zero [OF h g] h show ?thesis
      by (simp only: Get_JObj sum.inject) blast
  qed
  have thrown: "Get obj (str ''nutrition_summary'') = Inr summary \<and>
    (nullish summary \<or>
     (\<exists>m. Get summary (str ''macronutrients'') = Inr m \<and> nullish m) \<or>
     (\<exists>m. Get summary (str ''micronutrients'') = Inr m \<and> nullish m)) \<longrightarrow>
      render obj = Inl TypeError"
    using render_without_container [of obj summary] by blast
  from rendered shaped thrown show ?thesis
    by (intro conjI impI) blast+
qed

theorem macronutrient_zero_renders_zero_witness:
  "render zero_meal = Inr zero_meal_html \<and>
   Get zero_meal (str ''nutrition_summary'') = Inr (JObj zero_summary) \<and>
   Get (JObj zero_summary) (str ''macronutrients'') = Inr (JObj zero_macros) \<and>
   Get (JObj zero_macros) (str ''protein_g'') = Inr (JNum (Fin 0)) \<and>
   Get (JObj zero_macros) (str ''carbs_g'') = Inr JUndefined \<and>
   protein_p zero_meal_html = str ''0'' \<and> carbs_p zero_meal_html = str ''0'' \<and>
   result_shape [(str ''nutrition_summary'', JObj zero_summary)] zero_summary zero_macros zero_micros \<and>
   field zero_macros (str ''protein_g'') = JNum (Fin 0) \<and>
   field zero_macros (str ''fat_g'') = JUndefined \<and>
   (\<exists>h. render zero_meal = Inr h \<and> protein_p h = str ''0'' \<and> fat_p h = str ''0'') \<and>
   Get (JObj []) (str ''nutrition_summary'') = Inr JUndefined \<and>
   render (JObj []) = Inl TypeError"
proof -
  note t = macronutrient_zero_renders_zero
    [where data = zero_meal and html = zero_meal_html and nutrition_summary = "JObj zero_summary"
      and macronutrients = "JObj zero_macros"
      and ps = "[(str ''nutrition_summary'', JObj zero_summary)]" and ns = zero_summary
      and mac = zero_macros and mic = zero_micros and obj = "JObj []" and summary = JUndefined]
  have f: "field zero_macros (str ''protein_g'') = JNum (Fin 0)"
    "field zero_macros (str ''fat_g'') = JUndefined"
    by (simp_all add: zero_macros_def field_def str_def)
  have g: "Get (JObj []) (str ''nutrition_summary'') = Inr JUndefined"
    by (simp add: Get_def)
  from t render_zero_meal zero_meal_fields
  have a: "protein_p zero_meal_html = str ''0''" "carbs_p zero_meal_html = str ''0''"
    by simp_all
  from t zero_meal_shape f
  have b: "\<exists>h. render zero_meal = Inr h \<and> protein_p h = str ''0'' \<and> fat_p h = str ''0''"
    by (simp add: zero_meal_def) blast
  from t g have c: "render (JObj []) = Inl TypeError"
    by (simp add: nullish_def)
  from a b c f g render_zero_meal zero_meal_fields(1,3,5,6) zero_meal_shape show ?thesis
    by blast
qed

definition protein_only_summary :: "(jstring \<times> js) list" where
  "protein_only_summary = [(str ''macronutrients'', JObj [(str ''protein_g'', JNum (Fin 0))])]"

definition protein_only_meal :: js where
  "protein_only_meal = JObj [(str ''nutrition_summary'', JObj protein_only_summary)]"

definition no_macros_meal :: js where
  "no_macros_meal =
     JObj [(str ''nutrition_summary'', JObj [(str ''micronutrients'', JObj [])])]"

text \<open>
  Claim C6 as stated fails: the object \<open>{nutrition_summary: {macronutrients: {protein_g:
  0}}}\<close> has \<open>protein_g = 0\<close>, and the object \<open>{nutrition_summary: {micronutrients: {}}}\<close>
  has every macronutrient absent; for neither is anything rendered, \<open>displayResults\<close>
  throws.
\<close>

theorem macronutrient_zero_counterexample:
  "Get protein_only_meal (str ''nutrition_summary'') = Inr (JObj protein_only_summary) \<and>
   Get (JObj protein_only_summary) (str ''macronutrients'')
     = Inr (JObj [(str ''protein_g'', JNum (Fin 0))]) \<and>
   Get (JObj [(str ''protein_g'', JNum (Fin 0))]) (str ''protein_g'') = Inr (JNum (Fin 0)) \<and>
   render protein_only_meal = Inl TypeError \<and>
   render no_macros_meal = Inl TypeError"
  by (simp add: protein_only_meal_def protein_only_summary_def no_macros_meal_def render_def
      Get_def str_def ToNumber_def js_or_def call_toLowerCase_def items_list_def)

text \<open>
  Claim C7, as amended. In every markup that \<open>displayResults\<close> renders, each micronutrient
  (\<open>sugar_g\<close>, \<open>sodium_mg\<close>) shows its value as given, and \<open>N/A\<close> exactly when the value is
  absent in the sense of the operator \<open>??\<close> (\<open>undefined\<close> or \<open>null\<close>): the number 0 shows
  \<open>0\<close>, a \<open>sodium_mg\<close> missing from \<open>micronutrients\<close> shows \<open>N/A\<close>. A result object of the
  shape \<open>result_shape\<close> is rendered, with these values. When \<open>nutrition_summary\<close>,
  \<open>macronutrients\<close> or \<open>micronutrients\<close> is absent or \<open>null\<close>, nothing is rendered:
  \<open>displayResults\<close> throws a \<open>TypeError\<close>.
\<close>

theorem micronutrient_null_coalescing:
  "(render data = Inr html \<and>
    Get data (str ''nutrition_summary'') = Inr nutrition_summary \<and>
    Get nutrition_summary (str ''micronutrients'') = Inr micronutrients \<and>
    Get micronutrients (str ''sugar_g'') = Inr sugar_g \<and>
    Get micronutrients (str ''sodium_mg'') = Inr sodium_mg \<longrightarrow>
      Inr (sugar_li html) = (if nullish sugar_g then Inr (str ''N/A'') else ToString sugar_g) \<and>
      Inr (sodium_li html) = (if nullish sodium_mg then Inr (str ''N/A'') else ToString sodium_mg) \<and>
      (sugar_g = JNum (Fin 0) \<longrightarrow> sugar_li html = str ''0'') \<and>
      (sodium_mg = JNum (Fin 0) \<longrightarrow> sodium_li html = str ''0'') \<and>
      (sodium_mg = JUndefined \<longrightarrow> sodium_li html = str ''N/A'')) \<and>
   (result_shape ps ns mac mic \<longrightarrow>
      (\<exists>h. render (JObj ps) = Inr h \<and>
         Inr (sugar_li h) =
           (if nullish (field mic (str ''sugar_g'')) then Inr (str ''N/A'')
            else ToString (field mic (str ''sugar_g''))) \<and>
         Inr (sodium_li h) =
           (if nullish (field mic (str ''sodium_mg'')) then Inr (str ''N/A'')
            else ToString (field mic (str ''sodium_mg''))) \<and>
         (field mic (str ''sugar_g'') = JNum (Fin 0) \<longrightarrow> sugar_li h = str ''0'') \<and>
         (field mic (str ''sodium_mg'') = JNum (Fin 0) \<longrightarrow> sodium_li h = str ''0'') \<and>
         (field mic (str ''sodium_mg'') = JUndefined \<longrightarrow> sodium_li h = str ''N/A''))) \<and>
   (Get obj (str ''nutrition_summary'') = Inr summary \<and>
    (nullish summary \<or>
     (\<exists>m. Get summary (str ''macronutrients'') = Inr m \<and> nullish m) \<or>
     (\<exists>m. Get summary (str ''micronutrients'') = Inr m \<and> nullish m)) \<longrightarrow>
      render obj = Inl TypeError)"
proof -
  have rendered: "render data = Inr html \<and>
    Get data (str ''nutrition_summary'') = Inr nutrition_summary \<and>
    Get nutrition_summary (str ''micronutrients'') = Inr micronutrients \<and>
    Get micronutrients (str ''sugar_g'') = Inr sugar_g \<and>
    Get micronutrients (str ''sodium_mg'') = Inr sodium_mg \<longrightarrow>
      Inr (sugar_li html) = (if nullish sugar_g then Inr (str ''N/A'') else ToString sugar_g) \<and>
      Inr (sodium_li html) = (if nullish sodium_mg then Inr (str ''N/A'') else ToString sodium_mg) \<and>
      (sugar_g = JNum (Fin 0) \<longrightarrow> sugar_li html = str ''0'') \<and>
      (sodium_mg = JNum (Fin 0) \<longrightarrow> sodium_li html = str ''0'') \<and>
      (sodium_mg = JUndefined \<longrightarrow> sodium_li html = str ''N/A'')"
    using render_micros_coalesce [of data html nutrition_summary micronutrients sugar_g sodium_mg]
    by blast
  have shaped: "\<exists>h. render (JObj ps) = Inr h \<and>
         Inr (sugar_li h) =
           (if nullish (field mic (str ''sugar_g'')) then Inr (str ''N/A'')
            else ToString (field mic (str ''sugar_g''))) \<and>
         Inr (sodium_li h) =
           (if nullish (field mic (str ''sodium_mg'')) then Inr (str ''N/A'')
            else ToString (field mic (str ''sodium_mg''))) \<and>
         (field mic (str ''sugar_g'') = JNum (Fin 0) \<longrightarrow> sugar_li h = str ''0'') \<and>
         (field mic (str ''sodium_mg'') = JNum (Fin 0) \<longrightarrow> sodium_li h = str ''0'') \<and>
         (field mic (str ''sodium_mg'') = JUndefined \<longrightarrow> sodium_li h = str ''N/A'')"
    if s: "result_shape ps ns mac mic"
  proof -
    from render_result_shape [OF s] obtain h where h: "render (JObj ps) = Inr h" ..
    from s have g: "Get (JObj ps) (str ''nutrition_summary'') = Inr (JObj ns)"
      "Get (JObj ns) (str ''micronutrients'') = Inr (JObj mic)"
      by (simp_all add: result_shape_def Get_JObj)
    from render_micros_coalesce [OF h g Get_JObj Get_JObj] h show ?thesis
      by blast
  qed
  have thrown: "Get obj (str ''nutrition_summary'') = Inr summary \<and>
    (nullish summary \<or>
     (\<exists>m. Get summary (str ''macronutrients'') = Inr m \<and> nullish m) \<or>
     (\<exists>m. Get summary (str ''micronutrients'') = Inr m \<and> nullish m)) \<longrightarrow>
      render obj = Inl TypeError"
    using render_without_container [of obj summary] by blast
  from rendered shaped thrown show ?thesis
    by (intro conjI impI) blast+
qed

theorem micronutrient_null_coalescing_witness:
  "render zero_meal = Inr zero_meal_html \<and>
   Get zero_meal (str ''nutrition_summary'') = Inr (JObj zero_summary) \<and>
   Get (JObj zero_summary) (str ''micronutrients'') = Inr (JObj zero_micros) \<and>
   Get (JObj zero_micros) (str ''sugar_g'') = Inr (JNum (Fin 0)) \<and>
   Get (JObj zero_micros) (str ''sodium_mg'') = Inr JUndefined \<and>
   sugar_li zero_meal_html = str ''0'' \<and> sodium_li zero_meal_html = str ''N/A'' \<and>
   result_shape [(str ''nutrition_summary'', JObj zero_summary)] zero_summary zero_macros zero_micros \<and>
   field zero_micros (str ''sugar_g'') = JNum (Fin 0) \<and>
   field zero_micros (str ''sodium_mg'') = JUndefined \<and>
   (\<exists>h. render zero_meal = Inr h \<and> sugar_li h = str ''0'' \<and> sodium_li h = str ''N/A'') \<and>
   Get (JObj [(str ''macronutrients'', JObj [])]) (str ''micronutrients'') = Inr JUndefined \<and>
   render (JObj [(str ''nutrition_summary'', JObj [(str ''macronutrients'', JObj [])])])
     = Inl TypeError"
proof -
  let ?summary = "JObj [(str ''macronutrients'', JObj [])]"
  let ?obj = "JObj [(str ''nutrition_summary'', ?summary)]"
  note t = micronutrient_null_coalescing
    [where data = zero_meal and html = zero_meal_html and nutrition_summary = "JObj zero_summary"
      and micronutrients = "JObj zero_micros" and sugar_g = "JNum (Fin 0)" and sodium_mg = JUndefined
      and ps = "[(str ''nutrition_summary'', JObj zero_summary)]" and ns = zero_summary
      and mac = zero_macros and mic = zero_micros and obj = ?obj and summary = ?summary]
  have f: "field zero_micros (str ''sugar_g'') = JNum (Fin 0)"
    "field zero_micros (str ''sodium_mg'') = JUndefined"
    by (simp_all add: zero_micros_def field_def str_def)
  have g: "Get ?obj (str ''nutrition_summary'') = Inr ?summary"
    "Get ?summary (str ''micronutrients'') = Inr JUndefined"
    by (simp_all add: Get_def str_def)
  from t render_zero_meal zero_meal_fields
  have a: "sugar_li zero_meal_html = str ''0''" "sodium_li zero_meal_html = str ''N/A''"
    by simp_all
  from t zero_meal_shape f
  have b: "\<exists>h. render zero_meal = Inr h \<and> sugar_li h = str ''0'' \<and> sodium_li h = str ''N/A''"
    by (simp add: zero_meal_def) blast
  from t g have c: "render ?obj = Inl TypeError"
    by (simp add: nullish_def)
  from a b c f g(2) render_zero_meal zero_meal_fields(1,4,7,8) zero_meal_shape show ?thesis
    by blast
qed

definition no_micros_summary :: "(jstring \<times> js) list" where
  "no_micros_summary = [(str ''macronutrients'', JObj [(str ''protein_g'', JNum (Fin 12))])]"

definition no_micros_meal :: js where
  "no_micros_meal = JObj [(str ''nutrition_summary'', JObj no_micros_summary)]"

text \<open>
  Claim C7 as stated fails: the object \<open>{nutrition_summary: {macronutrients: {protein_g:
  12}}}\<close> is missing \<open>sodium_mg\<close> (and \<open>sugar_g\<close>), with the whole of \<open>micronutrients\<close>; no
  \<open>N/A\<close> is rendered for it, \<open>displayResults\<close> throws.
\<close>

theorem micronutrient_absent_counterexample:
  "Get no_micros_meal (str ''nutrition_summary'') = Inr (JObj no_micros_summary) \<and>
   Get (JObj no_micros_summary) (str ''micronutrients'') = Inr JUndefined \<and>
   render no_micros_meal = Inl TypeError"
  by (simp add: no_micros_meal_def no_micros_summary_def render_def Get_def str_def ToNumber_def
      js_or_def call_toLowerCase_def items_list_def del: Number_toString.simps)

theorem total_calories_field_witness:
  "render zero_meal = Inr zero_meal_html \<and>
   Get (JObj zero_summary) (str ''total_calories'') = Inr (JNum (Fin 0)) \<and>
   total_calories_span zero_meal_html = str ''N/A''"
  using total_calories_field
    [OF render_zero_meal zero_meal_fields(1) zero_meal_fields(2)]
    render_zero_meal zero_meal_fields(2)
  by (simp add: floor_half del: Number_toString.simps)

definition true_meal :: js where
  "true_meal =
     JObj [(str ''nutrition_summary'',
            JObj [(str ''total_calories'', JBool True), (str ''macronutrients'', JObj []),
                  (str ''micronutrients'', JObj [])])]"

lemma to_double_1: "to_double 1 = Fin 1"
  by code_simp

lemma to_double_2: "to_double 2 = Fin 2"
  by code_simp

lemma decimal_exponent_1: "decimal_exponent 1 = 1"
  by code_simp

lemma nat_digits_1: "nat_digits 1 = [1]"
  by (simp add: nat_digits.simps)

lemma digits_candidate_1: "digits_candidate 1 1 1 = Some (1, 1)"
  by (simp add: digits_candidate_def digits_ok_def pow10_def to_double_1 to_double_2)

lemma shortest_digits_first:
  assumes "0 < L" "digits_candidate x n 1 = Some sn"
  shows "shortest_digits x n [1 ..< Suc L] = Some sn"
proof -
  from assms(1) have "[1 ..< Suc L] = 1 # [Suc 1 ..< Suc L]"
    by (subst upt_rec) simp
  with assms(2) show ?thesis
    by (simp only: shortest_digits.simps option.case)
qed

lemma Number_toString_1: "Number_toString (Fin 1) = str ''1''"
proof -
  have "fst (exact_decimal 1) \<noteq> []"
    by (simp add: exact_decimal_def Let_def nat_digits.simps [of "nat _"])
  then have "0 < length (fst (exact_decimal 1))"
    by simp
  from shortest_digits_first [OF this digits_candidate_1]
  have "positive_toString 1 = format_number (nat_digits (nat 1)) 1"
    by (simp only: positive_toString_def decimal_exponent_1 option.case prod.case)
  moreover have "format_number (nat_digits (nat 1)) 1 = str ''1''"
    by (simp add: format_number_def nat_digits.simps digit_char_def str_def)
  ultimately show ?thesis
    by simp
qed

lemma render_true_meal: "map_sum id total_calories_span (render true_meal) = Inr (Number_toString (Fin 1))"
  by (simp add: true_meal_def render_def Get_def str_def ToNumber_def floor_three_halves js_or_def
      js_coalesce_def nullish_def call_toLowerCase_def items_list_def del: Number_toString.simps)

text \<open>
  Claim C2 as stated fails: for \<open>total_calories = 0\<close>, a number, the field shows \<open>N/A\<close>;
  and for \<open>total_calories = true\<close>, which is not a number, it shows \<open>1\<close>.
\<close>

theorem total_calories_counterexample:
  "Get (JObj zero_summary) (str ''total_calories'') = Inr (JNum (Fin 0)) \<and>
   map_sum id total_calories_span (render zero_meal) = Inr (str ''N/A'') \<and>
   map_sum id total_calories_span (render true_meal) = Inr (str ''1'')"
  using render_true_meal
  by (simp add: render_zero_meal zero_meal_html_def zero_meal_fields Number_toString_1
      del: Number_toString.simps)

text \<open>
  Claim C3 as stated fails: without \<open>nutrition_summary\<close>, without \<open>macronutrients\<close> or
  without \<open>micronutrients\<close> nothing is rendered; \<open>displayResults\<close> throws.
\<close>

theorem render_absent_container_counterexample:
  "render (JObj []) = Inl TypeError \<and>
   render (JObj [(str ''nutrition_summary'', JObj [])]) = Inl TypeError \<and>
   render (JObj [(str ''nutrition_summary'', JObj [(str ''macronutrients'', JObj [])])])
     = Inl TypeError"
  by (simp add: render_def Get_def str_def ToNumber_def js_or_def call_toLowerCase_def
      items_list_def)


section \<open>What the extractor selects\<close>

text \<open>
  The two alternatives of the expression in closed form. A fence at the head of a
  text: the text opens with \<^verbatim>\<open>```json\<close>, a later \<^verbatim>\<open>```\<close> closes it, and the content is
  what stands between the opening and the first closing fence, with white space
  trimmed at both ends. A brace span at the head of a text: the text opens with \<open>{\<close>,
  a \<open>}\<close> follows somewhere, and the span runs to the last \<open>}\<close> of the text.
\<close>

fun before_fence :: "jstring \<Rightarrow> jstring option" where
  "before_fence [] = None"
| "before_fence (c # cs) =
     (if starts_with (str ''```'') (c # cs) then Some []
      else case before_fence cs of None \<Rightarrow> None | Some b \<Rightarrow> Some (c # b))"

definition fence_content :: "jstring \<Rightarrow> jstring option" where
  "fence_content r = map_option trim (before_fence r)"

definition fence_at :: "jstring \<Rightarrow> jstring option" where
  "fence_at t = (if starts_with (str ''```json'') t then fence_content (drop 7 t) else None)"

definition up_to_last :: "code_unit \<Rightarrow> jstring \<Rightarrow> jstring" where
  "up_to_last x cs = rev (dropWhile (\<lambda>c. c \<noteq> x) (rev cs))"

definition brace_span :: "jstring \<Rightarrow> jstring option" where
  "brace_span t =
     (case t of
        [] \<Rightarrow> None
      | c # cs \<Rightarrow> if c = 0x7B \<and> 0x7D \<in> set cs then Some (c # up_to_last 0x7D cs) else None)"

text \<open>The pieces of the matcher compute these closed forms.\<close>

definition trim_right :: "jstring \<Rightarrow> jstring" where
  "trim_right b = rev (dropWhile is_space (rev b))"

lemma trim_right_Nil [simp]: "trim_right [] = []"
  by (simp add: trim_right_def)

lemma trim_right_empty_iff: "trim_right w = [] \<longleftrightarrow> (\<forall>c \<in> set w. is_space c)"
  by (simp add: trim_right_def dropWhile_eq_Nil_conv)

lemma trim_right_Cons:
  "trim_right (c # w) = (if is_space c \<and> trim_right w = [] then [] else c # trim_right w)"
  by (simp add: trim_right_def dropWhile_append)

lemma fence_head: "starts_with (str ''```'') (c # cs) \<Longrightarrow> c = 0x60"
  by (simp add: starts_with_def str_def)

lemma backtick_not_space: "\<not> is_space 0x60"
  by (simp add: is_space_def)

lemma closing_fence_before:
  "closing_fence t \<longleftrightarrow> (case before_fence t of None \<Rightarrow> False | Some w \<Rightarrow> trim_right w = [])"
proof (induction t)
  case Nil
  show ?case by simp
next
  case (Cons c cs)
  show ?case
  proof (cases "starts_with (str ''```'') (c # cs)")
    case True
    then show ?thesis by simp
  next
    case False
    with Cons show ?thesis
      by (auto simp: trim_right_Cons split: option.splits)
  qed
qed

lemma lazy_capture_eq: "lazy_capture t = map_option trim_right (before_fence t)"
proof (induction t)
  case Nil
  show ?case by simp
next
  case (Cons c cs)
  show ?case
  proof (cases "starts_with (str ''```'') (c # cs)")
    case True
    then show ?thesis by simp
  next
    case False
    show ?thesis
    proof (cases "before_fence cs")
      case None
      with False Cons show ?thesis
        using closing_fence_before [of cs] by simp
    next
      case (Some w)
      with False Cons show ?thesis
        using closing_fence_before [of cs] by (simp add: trim_right_Cons)
    qed
  qed
qed

lemma before_fence_space:
  "is_space c \<Longrightarrow> before_fence (c # cs) = map_option ((#) c) (before_fence cs)"
  using fence_head [of c cs] backtick_not_space by (auto split: option.splits)

lemma before_fence_dropWhile:
  "before_fence t = map_option ((@) (takeWhile is_space t)) (before_fence (dropWhile is_space t))"
  by (induction t)
    (simp_all add: before_fence_space option.map_comp comp_def del: before_fence.simps,
      simp_all split: option.splits)

lemma fence_body_eq: "fence_body r = lazy_capture (dropWhile is_space r)"
proof (induction r)
  case Nil
  show ?case by simp
next
  case (Cons c cs)
  show ?case
  proof (cases "is_space c")
    case False
    then show ?thesis by simp
  next
    case True
    show ?thesis
    proof (cases "fence_body cs")
      case (Some g)
      with Cons have "lazy_capture (dropWhile is_space cs) = Some g" by simp
      with True Some show ?thesis by simp
    next
      case None
      with Cons have "lazy_capture (dropWhile is_space cs) = None" by simp
      then have "before_fence (dropWhile is_space cs) = None"
        by (simp add: lazy_capture_eq)
      then have "before_fence cs = None"
        using before_fence_dropWhile [of cs] by simp
      with True have "lazy_capture (c # cs) = None"
        by (simp add: lazy_capture_eq before_fence_space del: before_fence.simps lazy_capture.simps)
      with True None Cons show ?thesis by simp
    qed
  qed
qed

lemma trim_append_spaces: "\<forall>c \<in> set ws. is_space c \<Longrightarrow> trim (ws @ b) = trim b"
  by (simp add: trim_def dropWhile_append2)

lemma trim_dropWhile: "trim (dropWhile is_space b) = trim b"
  by (simp add: trim_def)

lemma trim_right_no_lead:
  "trim b = trim_right (dropWhile is_space b)"
  by (simp add: trim_def trim_right_def)

lemma before_fence_no_lead:
  "before_fence t = Some b \<Longrightarrow> t = [] \<or> \<not> is_space (hd t) \<Longrightarrow> b = [] \<or> \<not> is_space (hd b)"
  by (cases t) (auto split: if_splits option.splits)

lemma fence_body_content: "fence_body r = fence_content r"
proof -
  have "fence_body r = map_option trim_right (before_fence (dropWhile is_space r))"
    by (simp add: fence_body_eq lazy_capture_eq)
  moreover have "map_option trim (before_fence r) =
      map_option trim_right (before_fence (dropWhile is_space r))"
  proof (cases "before_fence (dropWhile is_space r)")
    case None
    then show ?thesis
      using before_fence_dropWhile [of r] by simp
  next
    case (Some b)
    have nl: "dropWhile is_space b = b"
      using Some before_fence_no_lead [of "dropWhile is_space r" b] hd_dropWhile [of is_space r]
      by (auto simp: dropWhile_eq_self_iff)
    have "before_fence r = Some (takeWhile is_space r @ b)"
      using before_fence_dropWhile [of r] Some by simp
    moreover have "trim (takeWhile is_space r @ b) = trim_right b"
    proof -
      have "\<forall>c \<in> set (takeWhile is_space r). is_space c"
        by (auto dest: set_takeWhileD)
      from trim_append_spaces [OF this] have "trim (takeWhile is_space r @ b) = trim b" .
      also have "trim b = trim_right (dropWhile is_space b)"
        by (rule trim_right_no_lead)
      also have "\<dots> = trim_right b"
        by (simp only: nl)
      finally show ?thesis .
    qed
    ultimately show ?thesis
      using Some by simp
  qed
  ultimately show ?thesis
    by (simp add: fence_content_def)
qed

lemma json_fence_eq: "json_fence t = fence_at t"
  by (simp add: json_fence_def fence_at_def fence_body_content)

lemma up_to_last_Cons:
  "up_to_last x (c # cs) =
     (if x \<in> set cs then c # up_to_last x cs else if c = x then [c] else [])"
  by (auto simp: up_to_last_def dropWhile_append)

lemma greedy_to_brace_eq:
  "greedy_to_brace cs = (if 0x7D \<in> set cs then Some (up_to_last 0x7D cs) else None)"
  by (induction cs) (auto simp: up_to_last_Cons)

lemma braces_eq: "braces t = brace_span t"
  by (cases t) (simp_all add: braces_def brace_span_def greedy_to_brace_eq)

lemma regex_match_skip:
  "\<forall>j<i. json_fence (drop j s) = None \<and> braces (drop j s) = None \<Longrightarrow> i \<le> length s \<Longrightarrow>
   regex_match s = regex_match (drop i s)"
proof (induction s arbitrary: i)
  case Nil
  then show ?case by simp
next
  case (Cons c cs)
  show ?case
  proof (cases i)
    case 0
    then show ?thesis by simp
  next
    case (Suc k)
    with Cons.prems have h: "json_fence (c # cs) = None \<and> braces (c # cs) = None"
      by (metis drop0 zero_less_Suc)
    from Cons.prems Suc have "\<forall>j<k. json_fence (drop j cs) = None \<and> braces (drop j cs) = None"
      by (metis Suc_less_eq drop_Suc_Cons)
    with Cons.IH [of k] Cons.prems Suc have "regex_match cs = regex_match (drop k cs)"
      by simp
    with h Suc show ?thesis
      by (simp add: regex_match.simps [of "c # cs"])
  qed
qed

text \<open>
  Claim C4, as amended. The extractor selects the leftmost match. Let \<open>i\<close> be a position
  of the text before which neither a fence nor a brace span starts. If a fence starts
  at \<open>i\<close>, its content is selected (as \<open>match[1]\<close>); if none does but a brace span
  starts at \<open>i\<close>, that span, which runs to the last \<open>}\<close> of the text, is selected (as
  \<open>match[2]\<close>); and if \<open>i\<close> is the end of the text, nothing is selected.
\<close>

theorem extractor_selects_leftmost_match:
  assumes "\<forall>j<i. fence_at (drop j s) = None \<and> brace_span (drop j s) = None" and "i \<le> length s"
  shows "(fence_at (drop i s) = Some g \<longrightarrow> regex_match s = Some (JStr g, JUndefined)) \<and>
         (fence_at (drop i s) = None \<and> brace_span (drop i s) = Some m \<longrightarrow>
            regex_match s = Some (JUndefined, JStr m)) \<and>
         (i = length s \<longrightarrow> regex_match s = None)"
proof -
  from assms have "regex_match s = regex_match (drop i s)"
    by (intro regex_match_skip) (simp_all add: json_fence_eq braces_eq)
  then show ?thesis
    by (auto simp: regex_match.simps [of "drop i s"] regex_match.simps [of "[]"]
        json_fence_eq braces_eq fence_at_def brace_span_def starts_with_def str_def)
qed


definition fence_first :: jstring where
  \<open>fence_first = str ''x ```json {"a":true}``` {"b":true}''\<close>

definition brace_then_fence :: jstring where
  \<open>brace_then_fence = str ''{} ```json {"a":true}```''\<close>

definition two_objects :: jstring where
  \<open>two_objects = str ''{"a":true} and {"b":true}''\<close>

lemma fence_first_facts:
  \<open>fence_at (drop 0 fence_first) = None\<close>
  \<open>brace_span (drop 0 fence_first) = None\<close>
  \<open>fence_at (drop 1 fence_first) = None\<close>
  \<open>brace_span (drop 1 fence_first) = None\<close>
  \<open>2 \<le> length fence_first\<close>
  \<open>fence_at (drop 2 fence_first) = Some (str ''{"a":true}'')\<close>
  by code_simp+

theorem extractor_selects_leftmost_match_witness:
  \<open>fence_at (drop 0 fence_first) = None \<and> brace_span (drop 0 fence_first) = None \<and>
    fence_at (drop 1 fence_first) = None \<and> brace_span (drop 1 fence_first) = None \<and>
    2 \<le> length fence_first \<and>
    fence_at (drop 2 fence_first) = Some (str ''{"a":true}'') \<and>
    regex_match fence_first = Some (JStr (str ''{"a":true}''), JUndefined)\<close>
proof -
  have \<open>\<forall>j<2. fence_at (drop j fence_first) = None \<and> brace_span (drop j fence_first) = None\<close>
    using fence_first_facts(1-4) less_2_cases by (metis One_nat_def)
  from extractor_selects_leftmost_match [OF this fence_first_facts(5)] fence_first_facts
  show ?thesis by blast
qed

text \<open>
  Claim C4 as stated fails. In \<open>brace_then_fence\<close> a fenced block labelled as JSON is
  present (it starts at position 3 and holds \<open>{"a":true}\<close>), yet the extractor selects
  the brace span that starts at position 0 and runs into the fence, and \<open>extractJson\<close>
  returns \<open>null\<close>. In \<open>two_objects\<close> there is no fence and the first brace-delimited
  object is \<open>{"a":true}\<close>, yet the extractor selects the whole text, from the first \<open>{\<close>
  to the last \<open>}\<close>, and \<open>extractJson\<close> returns \<open>null\<close>.
\<close>

theorem extractor_selection_counterexample:
  \<open>fence_at (drop 3 brace_then_fence) = Some (str ''{"a":true}'') \<and>
    regex_match brace_then_fence = Some (JUndefined, JStr (str ''{} ```json {"a":true}'')) \<and>
    extractJson (JStr brace_then_fence) = Inr JNull \<and>
    regex_match two_objects = Some (JUndefined, JStr two_objects) \<and>
    extractJson (JStr two_objects) = Inr JNull\<close>
  by code_simp


end
